theory Spec2Isabelle
  imports Complex_Main "HOL-Library.AList"
begin

section \<open>Hybrid retrieval (FAISS + BM25): a shallow embedding\<close>

text \<open>
  The theory embeds the three retrieval classes of the application,
  \<^verbatim>\<open>app/services/bm25_retriever.py\<close>, \<^verbatim>\<open>app/services/faiss_retriever.py\<close> and
  \<^verbatim>\<open>app/services/hybrid_retriever.py\<close>, together with the part of
  \<^verbatim>\<open>app/services/text_processor.py\<close> they call.

  Conventions.
  \<^item> A Python \<^verbatim>\<open>str\<close> is a \<^typ>\<open>string\<close> holding its UTF-8 bytes.
  \<^item> A Python \<^verbatim>\<open>float\<close> is a \<^typ>\<open>real\<close>: rounding is not modelled.
  \<^item> A Python \<^verbatim>\<open>int\<close> is an \<^typ>\<open>int\<close>.
  \<^item> An instance of \<^verbatim>\<open>Exception\<close> is a value of \<open>exn\<close>; a call that may raise
    returns \<open>exn + 'a\<close> with \<open>Inl\<close> for the exception.
  \<^item> The third-party libraries (langdetect, the stop words of NLTK, rank_bm25, numpy's
    argsort, sentence-transformers, faiss) are parameters, collected in records of
    functions.
\<close>

subsection \<open>Python values\<close>

datatype exn =
  KeyError string
  | IndexError
  | ValueError string
  | FileNotFoundError
  | RuntimeError string

text \<open>Truth value of an optional string: \<^verbatim>\<open>None\<close> and \<^verbatim>\<open>''\<close> are false.\<close>

definition truthy :: "string option \<Rightarrow> bool" where
  "truthy s = (case s of None \<Rightarrow> False | Some v \<Rightarrow> v \<noteq> [])"

text \<open>
  \<^verbatim>\<open>xs[:k]\<close> and \<^verbatim>\<open>xs[k:]\<close> with Python's reading of a negative bound (counted from
  the end, clipped at the ends).
\<close>

definition py_slice_to :: "int \<Rightarrow> 'a list \<Rightarrow> 'a list" where
  "py_slice_to k xs =
     (if 0 \<le> k then take (nat k) xs else take (nat (int (length xs) + k)) xs)"

definition py_slice_from :: "int \<Rightarrow> 'a list \<Rightarrow> 'a list" where
  "py_slice_from k xs =
     (if 0 \<le> k then drop (nat k) xs else drop (nat (int (length xs) + k)) xs)"

text \<open>
  \<^verbatim>\<open>not s.strip()\<close>: the string consists of white space only. The white space of
  \<^verbatim>\<open>str.strip\<close> is the set of code points for which \<^verbatim>\<open>str.isspace\<close> holds; the function
  reads their UTF-8 encodings (U+0009..U+000D, U+001C..U+0020, U+0085, U+00A0, U+1680,
  U+2000..U+200A, U+2028, U+2029, U+202F, U+205F, U+3000).
\<close>

fun all_space :: "nat list \<Rightarrow> bool" where
  "all_space [] = True"
| "all_space (b # bs) =
     (if (9 \<le> b \<and> b \<le> 13) \<or> (28 \<le> b \<and> b \<le> 32) then all_space bs
      else if b = 0xC2 then
        (case bs of
           b2 # r \<Rightarrow> (b2 = 0x85 \<or> b2 = 0xA0) \<and> all_space r
         | [] \<Rightarrow> False)
      else if b = 0xE1 then
        (case bs of
           b2 # b3 # r \<Rightarrow> b2 = 0x9A \<and> b3 = 0x80 \<and> all_space r
         | _ \<Rightarrow> False)
      else if b = 0xE2 then
        (case bs of
           b2 # b3 # r \<Rightarrow>
             ((b2 = 0x80 \<and> ((0x80 \<le> b3 \<and> b3 \<le> 0x8A) \<or> b3 = 0xA8 \<or> b3 = 0xA9 \<or> b3 = 0xAF))
              \<or> (b2 = 0x81 \<and> b3 = 0x9F)) \<and> all_space r
         | _ \<Rightarrow> False)
      else if b = 0xE3 then
        (case bs of
           b2 # b3 # r \<Rightarrow> b2 = 0x80 \<and> b3 = 0x80 \<and> all_space r
         | _ \<Rightarrow> False)
      else False)"

definition strip_empty :: "string \<Rightarrow> bool" where
  "strip_empty s = all_space (map of_char s)"

text \<open>\<^verbatim>\<open>not query or not query.strip()\<close>\<close>

definition blank :: "string \<Rightarrow> bool" where
  "blank query = (query = [] \<or> strip_empty query)"

subsection \<open>Documents and results\<close>

text \<open>
  A document is a dictionary. The retrievers read two of its keys: \<^verbatim>\<open>doc['id']\<close>
  (a \<^verbatim>\<open>KeyError\<close> when absent) and \<^verbatim>\<open>doc.get('language')\<close> (\<^verbatim>\<open>None\<close> when absent);
  the other keys are carried along unchanged.
\<close>

record doc =
  doc_id :: "string option"
  doc_language :: "string option"
  doc_attrs :: "(string \<times> string) list"

text \<open>
  A result dictionary. The results of one retriever have the keys \<^verbatim>\<open>document\<close>,
  \<^verbatim>\<open>score\<close>, \<^verbatim>\<open>rank\<close>; a fused result has \<^verbatim>\<open>faiss_score\<close> and \<^verbatim>\<open>bm25_score\<close> too.
\<close>

record result =
  document :: doc
  score :: real
  rank :: int
  faiss_score :: "real option"
  bm25_score :: "real option"

subsection \<open>\<^verbatim>\<open>TextProcessor\<close>\<close>

text \<open>
  \<open>langdetect\<close> is \<^verbatim>\<open>langdetect.detect\<close>, \<open>None\<close> when the package is not installed
  (\<^verbatim>\<open>LANGDETECT_AVAILABLE = False\<close>). \<open>fr_stopwords\<close> and \<open>ar_stopwords\<close> are the two sets
  that \<^verbatim>\<open>__init__\<close> builds.

  \<^verbatim>\<open>normalize_text\<close>, \<^verbatim>\<open>tokenize\<close> and \<^verbatim>\<open>remove_stopwords\<close> are translated for a text of
  ASCII characters. On such a text the classes of \<^verbatim>\<open>re\<close> are: \<^verbatim>\<open>\s\<close> the characters
  U+0009..U+000D and U+001C..U+0020, \<^verbatim>\<open>\d\<close> the digits, \<^verbatim>\<open>\w\<close> the letters, the digits
  and the underscore; \<^verbatim>\<open>str.lower\<close> maps \<^verbatim>\<open>A..Z\<close> to \<^verbatim>\<open>a..z\<close>. On a text with a
  character outside ASCII the result of the three steps depends on the Unicode tables
  of \<^verbatim>\<open>re\<close> and \<^verbatim>\<open>str.lower\<close>; these are not modelled, and \<open>non_ascii\<close> stands for the
  tokens that \<^verbatim>\<open>preprocess\<close> returns for such a text and a language code.
\<close>

record TextProcessor =
  langdetect :: "(string \<Rightarrow> exn + string) option"
  fr_stopwords :: "string set"
  ar_stopwords :: "string set"
  non_ascii :: "string \<Rightarrow> string \<Rightarrow> string list"

text \<open>\<^verbatim>\<open>self.basic_fr_stopwords\<close> and \<^verbatim>\<open>self.basic_ar_stopwords\<close>, each word by its UTF-8
  bytes.\<close>

definition basic_fr_stopwords :: "string set" where
  "basic_fr_stopwords =
     {''le'', ''la'', ''les'', ''un'', ''une'', ''des'', ''et'', ''ou'', ''de'', ''du'',
      [CHR 0xC3, CHR 0xA0], ''au'', ''aux'', ''ce'', ''cette'', ''ces'', ''mon'', ''ma'',
      ''mes'', ''ton'', ''ta'', ''tes'', ''son'', ''sa'', ''ses'', ''que'', ''qui'', ''quoi'',
      ''dont'', [CHR ''o'', CHR 0xC3, CHR 0xB9], ''quand'', ''comment'', ''pourquoi'', ''je'',
      ''tu'', ''il'', ''elle'', ''nous'', ''vous'', ''ils'', ''elles'', ''on'', ''pour'',
      ''par'', ''en'', ''dans'', ''sur'', ''sous'', ''avec'', ''sans'', ''chez'', ''entre'',
      ''est'', ''sont'', [CHR 0xC3, CHR 0xA9, CHR ''t'', CHR ''a'', CHR ''i'', CHR ''t''],
      [CHR 0xC3, CHR 0xA9, CHR ''t'', CHR ''a'', CHR ''i'', CHR ''e'', CHR ''n'', CHR ''t''],
      [CHR 0xC3, CHR 0xAA, CHR ''t'', CHR ''r'', CHR ''e''], ''avoir'', ''a'', ''ai'', ''as'',
      ''avons'', ''avez'', ''ont''}"

definition basic_ar_stopwords :: "string set" where
  "basic_ar_stopwords =
     {[CHR 0xD9, CHR 0x85, CHR 0xD9, CHR 0x86],
      [CHR 0xD8, CHR 0xA5, CHR 0xD9, CHR 0x84, CHR 0xD9, CHR 0x89],
      [CHR 0xD8, CHR 0xB9, CHR 0xD9, CHR 0x86],
      [CHR 0xD8, CHR 0xB9, CHR 0xD9, CHR 0x84, CHR 0xD9, CHR 0x89],
      [CHR 0xD9, CHR 0x81, CHR 0xD9, CHR 0x8A],
      [CHR 0xD9, CHR 0x87, CHR 0xD8, CHR 0xB0, CHR 0xD8, CHR 0xA7],
      [CHR 0xD9, CHR 0x87, CHR 0xD8, CHR 0xB0, CHR 0xD9, CHR 0x87],
      [CHR 0xD9, CHR 0x87, CHR 0xD8, CHR 0xA4, CHR 0xD9, CHR 0x84, CHR 0xD8, CHR 0xA7, CHR 0xD8, CHR 0xA1],
      [CHR 0xD8, CHR 0xB0, CHR 0xD9, CHR 0x84, CHR 0xD9, CHR 0x83],
      [CHR 0xD8, CHR 0xAA, CHR 0xD9, CHR 0x84, CHR 0xD9, CHR 0x83],
      [CHR 0xD8, CHR 0xA3, CHR 0xD9, CHR 0x88, CHR 0xD9, CHR 0x84, CHR 0xD8, CHR 0xA6, CHR 0xD9, CHR 0x83],
      [CHR 0xD8, CHR 0xA7, CHR 0xD9, CHR 0x84, CHR 0xD8, CHR 0xB0, CHR 0xD9, CHR 0x8A],
      [CHR 0xD8, CHR 0xA7, CHR 0xD9, CHR 0x84, CHR 0xD8, CHR 0xAA, CHR 0xD9, CHR 0x8A],
      [CHR 0xD8, CHR 0xA7, CHR 0xD9, CHR 0x84, CHR 0xD8, CHR 0xB0, CHR 0xD9, CHR 0x8A, CHR 0xD9, CHR 0x86],
      [CHR 0xD8, CHR 0xA7, CHR 0xD9, CHR 0x84, CHR 0xD9, CHR 0x84, CHR 0xD9, CHR 0x88, CHR 0xD8, CHR 0xA7, CHR 0xD8, CHR 0xAA, CHR 0xD9, CHR 0x8A],
      [CHR 0xD8, CHR 0xA3, CHR 0xD9, CHR 0x86, CHR 0xD8, CHR 0xA7],
      [CHR 0xD8, CHR 0xA3, CHR 0xD9, CHR 0x86, CHR 0xD8, CHR 0xAA],
      [CHR 0xD9, CHR 0x87, CHR 0xD9, CHR 0x88], [CHR 0xD9, CHR 0x87, CHR 0xD9, CHR 0x8A],
      [CHR 0xD9, CHR 0x86, CHR 0xD8, CHR 0xAD, CHR 0xD9, CHR 0x86],
      [CHR 0xD8, CHR 0xA3, CHR 0xD9, CHR 0x86, CHR 0xD8, CHR 0xAA, CHR 0xD9, CHR 0x85],
      [CHR 0xD9, CHR 0x87, CHR 0xD9, CHR 0x85], [CHR 0xD9, CHR 0x87, CHR 0xD9, CHR 0x86],
      [CHR 0xD9, CHR 0x83, CHR 0xD8, CHR 0xA7, CHR 0xD9, CHR 0x86],
      [CHR 0xD9, CHR 0x83, CHR 0xD8, CHR 0xA7, CHR 0xD9, CHR 0x86, CHR 0xD8, CHR 0xAA],
      [CHR 0xD9, CHR 0x83, CHR 0xD8, CHR 0xA7, CHR 0xD9, CHR 0x86, CHR 0xD9, CHR 0x88, CHR 0xD8, CHR 0xA7],
      [CHR 0xD9, CHR 0x8A, CHR 0xD9, CHR 0x83, CHR 0xD9, CHR 0x88, CHR 0xD9, CHR 0x86],
      [CHR 0xD8, CHR 0xAA, CHR 0xD9, CHR 0x83, CHR 0xD9, CHR 0x88, CHR 0xD9, CHR 0x86],
      [CHR 0xD9, CHR 0x8A, CHR 0xD9, CHR 0x83, CHR 0xD9, CHR 0x88, CHR 0xD9, CHR 0x86, CHR 0xD9, CHR 0x88, CHR 0xD8, CHR 0xA7],
      [CHR 0xD9, CHR 0x83, CHR 0xD9, CHR 0x86], [CHR 0xD8, CHR 0xA3, CHR 0xD9, CHR 0x86],
      [CHR 0xD9, CHR 0x84, CHR 0xD8, CHR 0xA3, CHR 0xD9, CHR 0x86],
      [CHR 0xD9, CHR 0x84, CHR 0xD9, CHR 0x83, CHR 0xD9, CHR 0x86],
      [CHR 0xD8, CHR 0xA5, CHR 0xD8, CHR 0xB0, CHR 0xD8, CHR 0xA7],
      [CHR 0xD9, CHR 0x84, CHR 0xD9, CHR 0x88], [CHR 0xD9, CHR 0x82, CHR 0xD8, CHR 0xAF],
      [CHR 0xD9, CHR 0x84, CHR 0xD9, CHR 0x82, CHR 0xD8, CHR 0xAF],
      [CHR 0xD9, CHR 0x82, CHR 0xD8, CHR 0xA7, CHR 0xD9, CHR 0x84],
      [CHR 0xD9, CHR 0x82, CHR 0xD8, CHR 0xA7, CHR 0xD9, CHR 0x84, CHR 0xD8, CHR 0xAA],
      [CHR 0xD9, CHR 0x8A, CHR 0xD9, CHR 0x82, CHR 0xD9, CHR 0x88, CHR 0xD9, CHR 0x84],
      [CHR 0xD8, CHR 0xAA, CHR 0xD9, CHR 0x82, CHR 0xD9, CHR 0x88, CHR 0xD9, CHR 0x84],
      [CHR 0xD8, CHR 0xA3, CHR 0xD9, CHR 0x88], [CHR 0xD8, CHR 0xA3, CHR 0xD9, CHR 0x85],
      [CHR 0xD8, CHR 0xA3, CHR 0xD9, CHR 0x8A], [CHR 0xD9, CHR 0x83, CHR 0xD9, CHR 0x84],
      [CHR 0xD8, CHR 0xA8, CHR 0xD8, CHR 0xB9, CHR 0xD8, CHR 0xB6],
      [CHR 0xD8, CHR 0xAC, CHR 0xD9, CHR 0x85, CHR 0xD9, CHR 0x8A, CHR 0xD8, CHR 0xB9]}"

text \<open>\<^verbatim>\<open>__init__\<close>. \<open>nltk\<close> is the pair of \<^verbatim>\<open>stopwords.words('french')\<close> and
  \<^verbatim>\<open>stopwords.words('arabic')\<close>; it is \<open>None\<close> when NLTK or its corpus is not available
  (\<^verbatim>\<open>NLTK_STOPWORDS_AVAILABLE = False\<close>) or reading it raises.\<close>

definition new_TextProcessor ::
  "(string \<Rightarrow> exn + string) option \<Rightarrow> (string list \<times> string list) option
     \<Rightarrow> (string \<Rightarrow> string \<Rightarrow> string list) \<Rightarrow> TextProcessor" where
  "new_TextProcessor detect nltk tables =
     \<lparr>langdetect = detect,
      fr_stopwords = (case nltk of
                        None \<Rightarrow> basic_fr_stopwords
                      | Some (fr, ar) \<Rightarrow> set fr \<union> basic_fr_stopwords),
      ar_stopwords = (case nltk of
                        None \<Rightarrow> basic_ar_stopwords
                      | Some (fr, ar) \<Rightarrow> set ar \<union> basic_ar_stopwords),
      non_ascii = tables\<rparr>"

text \<open>\<^verbatim>\<open>re.search\<close> for a code point in U+0600..U+06FF: in UTF-8 these code points are exactly
  the two-byte sequences with lead byte D8..DB.\<close>

definition has_arabic :: "string \<Rightarrow> bool" where
  "has_arabic text = list_ex (\<lambda>c. 0xD8 \<le> (of_char c :: nat) \<and> (of_char c :: nat) \<le> 0xDB) text"

definition detect_language :: "TextProcessor \<Rightarrow> string \<Rightarrow> string" where
  "detect_language tp text =
     (if blank text then ''fr''
      else case langdetect tp of
        None \<Rightarrow> (if has_arabic text then ''ar'' else ''fr'')
      | Some detect \<Rightarrow>
          (case detect text of
             Inr lang \<Rightarrow>
               (if lang = ''fr'' then ''fr''
                else if lang = ''ar'' \<or> lang = ''arb'' then ''ar''
                else lang)
           | Inl e \<Rightarrow> (if has_arabic text then ''ar'' else ''fr'')))"

text \<open>\<^verbatim>\<open>if not language: language = self.detect_language(text)\<close>, as it opens
  \<^verbatim>\<open>preprocess\<close> and the three \<^verbatim>\<open>search\<close> methods.\<close>

definition resolve_language :: "TextProcessor \<Rightarrow> string option \<Rightarrow> string \<Rightarrow> string" where
  "resolve_language tp language text =
     (case language of
        None \<Rightarrow> detect_language tp text
      | Some l \<Rightarrow> (if l = [] then detect_language tp text else l))"

text \<open>The character classes on ASCII, and \<^verbatim>\<open>str.lower\<close>.\<close>

definition is_ascii :: "string \<Rightarrow> bool" where
  "is_ascii text = list_all (\<lambda>c. (of_char c :: nat) < 128) text"

definition re_space :: "char \<Rightarrow> bool" where
  "re_space c = ((9 \<le> (of_char c :: nat) \<and> (of_char c :: nat) \<le> 13)
                 \<or> (28 \<le> (of_char c :: nat) \<and> (of_char c :: nat) \<le> 32))"

definition re_digit :: "char \<Rightarrow> bool" where
  "re_digit c = (48 \<le> (of_char c :: nat) \<and> (of_char c :: nat) \<le> 57)"

definition re_word :: "char \<Rightarrow> bool" where
  "re_word c = (re_digit c
                \<or> (65 \<le> (of_char c :: nat) \<and> (of_char c :: nat) \<le> 90)
                \<or> (97 \<le> (of_char c :: nat) \<and> (of_char c :: nat) \<le> 122)
                \<or> c = CHR ''_'')"

definition lower :: "string \<Rightarrow> string" where
  "lower s = map (\<lambda>c. if 65 \<le> (of_char c :: nat) \<and> (of_char c :: nat) \<le> 90
                       then char_of ((of_char c :: nat) + 32) else c) s"

text \<open>
  \<^verbatim>\<open>re.sub(r'https?://\S+|www\.\S+', '', text)\<close>. A match starts where the text reads
  \<^verbatim>\<open>http://\<close>, \<^verbatim>\<open>https://\<close> or \<^verbatim>\<open>www.\<close> followed by a character that is not white space,
  and runs to the next white space.
\<close>

definition url_at :: "string \<Rightarrow> bool" where
  "url_at s =
     list_ex (\<lambda>p. take (length p) s = p \<and> length p < length s \<and> \<not> re_space (s ! length p))
       [''http://'', ''https://'', ''www.'']"

function remove_urls :: "string \<Rightarrow> string" where
  "remove_urls [] = []"
| "remove_urls (c # cs) =
     (if url_at (c # cs) then remove_urls (dropWhile (\<lambda>x. \<not> re_space x) cs)
      else c # remove_urls cs)"
  by pat_completeness auto
termination
  by (relation "measure length") (auto intro: le_imp_less_Suc length_dropWhile_le)

text \<open>
  \<^verbatim>\<open>re.sub(r'\S+@\S+', '', text)\<close>. Within a run of characters that are not white space
  a match exists when an \<^verbatim>\<open>@\<close> stands neither first nor last; the leftmost match then
  starts with the run, and, both \<^verbatim>\<open>\S+\<close> being greedy, ends with it.
\<close>

definition email_run :: "string \<Rightarrow> bool" where
  "email_run w = (CHR ''@'' \<in> set (butlast (tl w)))"

function remove_emails :: "string \<Rightarrow> string" where
  "remove_emails [] = []"
| "remove_emails (c # cs) =
     (if re_space c then c # remove_emails cs
      else if email_run (c # takeWhile (\<lambda>x. \<not> re_space x) cs)
      then remove_emails (dropWhile (\<lambda>x. \<not> re_space x) cs)
      else c # takeWhile (\<lambda>x. \<not> re_space x) cs
             @ remove_emails (dropWhile (\<lambda>x. \<not> re_space x) cs))"
  by pat_completeness auto
termination
  by (relation "measure length") (auto intro: le_imp_less_Suc length_dropWhile_le)

text \<open>The characters that the third substitution of \<^verbatim>\<open>normalize_text\<close> keeps: for
  \<open>ar\<close> the Arabic block (no ASCII character is in it), white space, digits and
  \<^verbatim>\<open>.,!?:;\<close>; for another language the word characters, white space and \<^verbatim>\<open>.,!?:;\<close>.\<close>

definition kept :: "string \<Rightarrow> char \<Rightarrow> bool" where
  "kept language c =
     (if language = ''ar'' then re_space c \<or> re_digit c \<or> c \<in> set ''.,!?:;''
      else re_word c \<or> re_space c \<or> c \<in> set ''.,!?:;'')"

text \<open>\<^verbatim>\<open>re.sub(r'\s+', ' ', text)\<close> and \<^verbatim>\<open>str.strip\<close>.\<close>

function squeeze :: "string \<Rightarrow> string" where
  "squeeze [] = []"
| "squeeze (c # cs) =
     (if re_space c then CHR '' '' # squeeze (dropWhile re_space cs) else c # squeeze cs)"
  by pat_completeness auto
termination
  by (relation "measure length") (auto intro: le_imp_less_Suc length_dropWhile_le)

definition strip :: "string \<Rightarrow> string" where
  "strip s = rev (dropWhile re_space (rev (dropWhile re_space s)))"

text \<open>\<^verbatim>\<open>normalize_text\<close>, \<^verbatim>\<open>tokenize\<close> and \<^verbatim>\<open>remove_stopwords\<close> each open with
  \<^verbatim>\<open>if not language: language = self.detect_language(...)\<close>, on the text they are given
  (\<^verbatim>\<open>remove_stopwords\<close> on \<^verbatim>\<open>' '.join(tokens)\<close>).\<close>

definition normalize_text :: "TextProcessor \<Rightarrow> string \<Rightarrow> string \<Rightarrow> string" where
  "normalize_text tp text language =
     (if text = [] then []
      else
        let lang = resolve_language tp (Some language) text;
            text1 = remove_emails (remove_urls text);
            text2 = map (\<lambda>c. if kept lang c then c else CHR '' '') text1;
            text3 = strip (squeeze text2)
        in if lang \<noteq> ''ar'' then lower text3 else text3)"

text \<open>\<^verbatim>\<open>re.findall(r'\b\w+\b', text)\<close>: the maximal runs of word characters.\<close>

function word_runs :: "string \<Rightarrow> string list" where
  "word_runs [] = []"
| "word_runs (c # cs) =
     (if re_word c then (c # takeWhile re_word cs) # word_runs (dropWhile re_word cs)
      else word_runs cs)"
  by pat_completeness auto
termination
  by (relation "measure length") (auto intro: le_imp_less_Suc length_dropWhile_le)

definition meaningful_short :: "string \<Rightarrow> string set" where
  "meaningful_short language =
     {[CHR 0xC3, CHR 0xA0], ''au'', ''du'', ''de'', ''le'', ''la'', ''un'', ''et'', ''ou'',
      ''si'', ''en'', ''on''}
     \<union> (if language = ''ar''
        then {[CHR 0xD9, CHR 0x81, CHR 0xD9, CHR 0x8A], [CHR 0xD9, CHR 0x85, CHR 0xD9, CHR 0x86],
              [CHR 0xD8, CHR 0xA5, CHR 0xD9, CHR 0x84, CHR 0xD9, CHR 0x89],
              [CHR 0xD8, CHR 0xB9, CHR 0xD9, CHR 0x84, CHR 0xD9, CHR 0x89],
              [CHR 0xD8, CHR 0xB9, CHR 0xD9, CHR 0x86], [CHR 0xD9, CHR 0x87, CHR 0xD9, CHR 0x88],
              [CHR 0xD9, CHR 0x87, CHR 0xD9, CHR 0x8A], [CHR 0xD9, CHR 0x84, CHR 0xD8, CHR 0xA7],
              [CHR 0xD9, CHR 0x85, CHR 0xD8, CHR 0xA7]}
        else {})"

text \<open>\<^verbatim>\<open>tokenize\<close>: the tokens are ASCII here, so the length of the list of bytes is
  \<^verbatim>\<open>len(token)\<close>.\<close>

definition tokenize :: "TextProcessor \<Rightarrow> string \<Rightarrow> string \<Rightarrow> string list" where
  "tokenize tp text language =
     (if text = [] then []
      else
        let lang = resolve_language tp (Some language) text
        in filter (\<lambda>token. length token \<ge> 2 \<or> lower token \<in> meaningful_short lang)
             (word_runs text))"

text \<open>\<^verbatim>\<open>' '.join(tokens)\<close>\<close>

fun join_space :: "string list \<Rightarrow> string" where
  "join_space [] = []"
| "join_space [t] = t"
| "join_space (t # u # ts) = t @ CHR '' '' # join_space (u # ts)"

definition remove_stopwords :: "TextProcessor \<Rightarrow> string list \<Rightarrow> string \<Rightarrow> string list" where
  "remove_stopwords tp tokens language =
     (if tokens = [] then []
      else
        let lang = resolve_language tp (Some language) (join_space tokens)
        in if lang = ''fr'' then filter (\<lambda>token. lower token \<notin> fr_stopwords tp) tokens
           else if lang = ''ar'' then filter (\<lambda>token. token \<notin> ar_stopwords tp) tokens
           else tokens)"

text \<open>\<^verbatim>\<open>preprocess\<close> (with \<^verbatim>\<open>remove_stops=True\<close>, as the retrievers call it). The three
  steps raise nothing on a \<^verbatim>\<open>str\<close>, so the \<^verbatim>\<open>except\<close> branch is not reached.\<close>

definition preprocess :: "TextProcessor \<Rightarrow> string \<Rightarrow> string option \<Rightarrow> string list" where
  "preprocess tp text language =
     (if text = [] then []
      else
        let lang = resolve_language tp language text
        in if is_ascii text
           then remove_stopwords tp (tokenize tp (normalize_text tp text lang) lang) lang
           else non_ascii tp text lang)"

subsection \<open>\<^verbatim>\<open>HybridRetriever\<close>\<close>

text \<open>
  The two retrievers are held by their \<^verbatim>\<open>search\<close> methods (query, top_k, language),
  which may raise; \<open>None\<close> is a retriever that was not provided.
\<close>

type_synonym sub_search = "string \<Rightarrow> int \<Rightarrow> string \<Rightarrow> exn + result list"

record HybridRetriever =
  faiss_retriever :: "sub_search option"
  bm25_retriever :: "sub_search option"
  faiss_weight :: real
  bm25_weight :: real
  text_processor :: TextProcessor

definition normalize_scores :: "result list \<Rightarrow> result list" where
  "normalize_scores results =
     (if results = [] then []
      else let scores = map score results;
               min_score = Min (set scores);
               max_score = Max (set scores)
           in if max_score = min_score
              then map (\<lambda>result. result\<lparr>score := 1\<rparr>) results
              else map (\<lambda>result.
                     result\<lparr>score := (score result - min_score) / (max_score - min_score)\<rparr>)
                     results)"

text \<open>The values of the dictionary \<^verbatim>\<open>doc_scores\<close>, which is keyed by document id and
  keeps the order of first insertion.\<close>

record ds_entry =
  ds_document :: doc
  ds_faiss_score :: real
  ds_bm25_score :: real
  ds_combined_score :: real

text \<open>First loop of \<^verbatim>\<open>_combine_results\<close>: \<^verbatim>\<open>doc_scores[doc_id] = {...}\<close> for every
  FAISS result.\<close>

fun add_faiss_scores ::
  "real \<Rightarrow> result list \<Rightarrow> (string \<times> ds_entry) list \<Rightarrow> exn + (string \<times> ds_entry) list" where
  "add_faiss_scores w [] doc_scores = Inr doc_scores"
| "add_faiss_scores w (r # rs) doc_scores =
     (case doc_id (document r) of
        None \<Rightarrow> Inl (KeyError ''id'')
      | Some k \<Rightarrow>
          add_faiss_scores w rs
            (AList.update k
               \<lparr>ds_document = document r, ds_faiss_score = score r * w,
                ds_bm25_score = 0, ds_combined_score = 0\<rparr> doc_scores))"

text \<open>Second loop: the BM25 score is written into an entry that exists, a new entry
  is appended otherwise.\<close>

fun add_bm25_scores ::
  "real \<Rightarrow> result list \<Rightarrow> (string \<times> ds_entry) list \<Rightarrow> exn + (string \<times> ds_entry) list" where
  "add_bm25_scores w [] doc_scores = Inr doc_scores"
| "add_bm25_scores w (r # rs) doc_scores =
     (case doc_id (document r) of
        None \<Rightarrow> Inl (KeyError ''id'')
      | Some k \<Rightarrow>
          add_bm25_scores w rs
            (if k \<in> fst ` set doc_scores
             then AList.map_entry k (\<lambda>e. e\<lparr>ds_bm25_score := score r * w\<rparr>) doc_scores
             else AList.update k
               \<lparr>ds_document = document r, ds_faiss_score = 0,
                ds_bm25_score = score r * w, ds_combined_score = 0\<rparr> doc_scores))"

text \<open>Third loop: \<^verbatim>\<open>data['combined_score'] = data['faiss_score'] + data['bm25_score']\<close>.\<close>

definition calc_combined :: "(string \<times> ds_entry) list \<Rightarrow> ds_entry list" where
  "calc_combined doc_scores =
     map (\<lambda>(k, e). e\<lparr>ds_combined_score := ds_faiss_score e + ds_bm25_score e\<rparr>) doc_scores"

text \<open>\<^verbatim>\<open>sorted(doc_scores.values(), key=combined_score, reverse=True)\<close>: a stable sort;
  entries with equal keys keep their order.\<close>

definition sorted_results :: "ds_entry list \<Rightarrow> ds_entry list" where
  "sorted_results es = sort_key (\<lambda>x. - ds_combined_score x) es"

definition final_results :: "ds_entry list \<Rightarrow> result list" where
  "final_results es =
     map (\<lambda>(i, e). \<lparr>document = ds_document e, score = ds_combined_score e,
                     rank = int i + 1,
                     faiss_score = Some (ds_faiss_score e),
                     bm25_score = Some (ds_bm25_score e)\<rparr>)
       (enumerate 0 es)"

text \<open>
  \<^verbatim>\<open>_combine_results\<close>. The normalised lists replace the arguments before the loops
  start, so the \<^verbatim>\<open>except\<close> branch returns normalised results.
\<close>

definition combine_results ::
  "HybridRetriever \<Rightarrow> result list \<Rightarrow> result list \<Rightarrow> int \<Rightarrow> result list" where
  "combine_results h faiss_results bm25_results top_k =
     (let faiss_results' = normalize_scores faiss_results;
          bm25_results' = normalize_scores bm25_results
      in case (case add_faiss_scores (faiss_weight h) faiss_results' [] of
                 Inl e \<Rightarrow> Inl e
               | Inr doc_scores \<Rightarrow> add_bm25_scores (bm25_weight h) bm25_results' doc_scores) of
           Inr doc_scores \<Rightarrow>
             final_results (py_slice_to top_k (sorted_results (calc_combined doc_scores)))
         | Inl e \<Rightarrow>
             (if faiss_results' \<noteq> [] then py_slice_to top_k faiss_results'
              else py_slice_to top_k bm25_results'))"

text \<open>A retriever's results as \<^verbatim>\<open>search\<close> sees them: the empty list when the
  retriever is absent or its search raised.\<close>

definition sub_results :: "sub_search option \<Rightarrow> string \<Rightarrow> int \<Rightarrow> string \<Rightarrow> result list" where
  "sub_results retriever query k language =
     (case retriever of
        None \<Rightarrow> []
      | Some search \<Rightarrow> (case search query k language of Inl e \<Rightarrow> [] | Inr rs \<Rightarrow> rs))"

definition hybrid_search ::
  "HybridRetriever \<Rightarrow> string \<Rightarrow> int \<Rightarrow> string option \<Rightarrow> result list" where
  "hybrid_search h query top_k language =
     (if blank query then []
      else
        let lang = resolve_language (text_processor h) language query;
            internal_top_k = max (top_k * 2) 10;
            faiss_results = sub_results (faiss_retriever h) query internal_top_k lang;
            bm25_results = sub_results (bm25_retriever h) query internal_top_k lang
        in if faiss_results = [] \<and> bm25_results \<noteq> [] then py_slice_to top_k bm25_results
           else if faiss_results \<noteq> [] \<and> bm25_results = [] then py_slice_to top_k faiss_results
           else if faiss_results = [] \<and> bm25_results = [] then []
           else combine_results h faiss_results bm25_results top_k)"

subsection \<open>Files\<close>

text \<open>
  What the retrievers need of the file system: files by path, with the value that was
  written, and the directories that exist. \<open>dirname\<close> and \<open>replace\<close> are
  \<^verbatim>\<open>os.path.dirname\<close> (POSIX) and \<^verbatim>\<open>str.replace\<close> (of a string \<open>old\<close> that is
  not empty, from left to right).
\<close>

datatype BM25Okapi = BM25Okapi "string list list"

datatype faiss_index = IndexFlatIP nat "real list list"

text \<open>An unpickled object: a list of documents; a dictionary with keys among the four
  of \<^verbatim>\<open>_save_data\<close> (a key that is absent is \<open>None\<close>); or an object that is neither a
  list nor a dictionary and has neither a length nor a method \<^verbatim>\<open>get\<close> (\<^verbatim>\<open>None\<close>, a
  number).\<close>

datatype py_obj =
  ObjDocs "doc list"
  | ObjDict "string list list option" "string list list option" "doc list option" "doc list option"
  | ObjOther

datatype file_content = FaissFile faiss_index | PickleFile py_obj | OtherFile string

record fs =
  files :: "string \<Rightarrow> file_content option"
  dirs :: "string set"

definition dirname :: "string \<Rightarrow> string" where
  "dirname p =
     (let head = rev (dropWhile (\<lambda>c. c \<noteq> CHR ''/'') (rev p))
      in if head \<noteq> [] \<and> \<not> list_all (\<lambda>c. c = CHR ''/'') head
         then rev (dropWhile (\<lambda>c. c = CHR ''/'') (rev head))
         else head)"

function replace :: "string \<Rightarrow> string \<Rightarrow> string \<Rightarrow> string" where
  "replace old new [] = []"
| "replace old new (c # cs) =
     (if old \<noteq> [] \<and> take (length old) (c # cs) = old
      then new @ replace old new (drop (length old) (c # cs))
      else c # replace old new cs)"
  by pat_completeness auto
termination
  by (relation "measure (\<lambda>(old, new, s). length s)") auto

definition path_exists :: "fs \<Rightarrow> string \<Rightarrow> bool" where
  "path_exists fsys p = (files fsys p \<noteq> None \<or> p \<in> dirs fsys)"

text \<open>\<^verbatim>\<open>os.makedirs(d, exist_ok=True)\<close>: the empty path is refused, and so is the path of
  a file.\<close>

definition makedirs :: "fs \<Rightarrow> string \<Rightarrow> exn + fs" where
  "makedirs fsys d =
     (if d = [] then Inl FileNotFoundError
      else if files fsys d \<noteq> None then Inl (RuntimeError ''FileExistsError'')
      else Inr (fsys\<lparr>dirs := insert d (dirs fsys)\<rparr>))"

text \<open>Writing a file (\<^verbatim>\<open>open(p, 'wb')\<close> and \<^verbatim>\<open>pickle.dump\<close>, or \<^verbatim>\<open>faiss.write_index\<close>):
  its directory must exist (the empty directory name is the working directory) and the
  path must not be a directory.\<close>

definition write_file :: "fs \<Rightarrow> string \<Rightarrow> file_content \<Rightarrow> exn + fs" where
  "write_file fsys p content =
     (if p \<in> dirs fsys then Inl (RuntimeError ''IsADirectoryError'')
      else if dirname p \<noteq> [] \<and> dirname p \<notin> dirs fsys then Inl FileNotFoundError
      else Inr (fsys\<lparr>files := (files fsys)(p \<mapsto> content)\<rparr>))"

text \<open>\<^verbatim>\<open>pickle.load(open(p, 'rb'))\<close> and \<^verbatim>\<open>faiss.read_index(p)\<close>.\<close>

definition pickle_load :: "fs \<Rightarrow> string \<Rightarrow> exn + py_obj" where
  "pickle_load fsys p =
     (case files fsys p of
        None \<Rightarrow> Inl FileNotFoundError
      | Some (PickleFile obj) \<Rightarrow> Inr obj
      | Some other \<Rightarrow> Inl (RuntimeError ''UnpicklingError''))"

definition read_index :: "fs \<Rightarrow> string \<Rightarrow> exn + faiss_index" where
  "read_index fsys p =
     (case files fsys p of
        None \<Rightarrow> Inl FileNotFoundError
      | Some (FaissFile idx) \<Rightarrow> Inr idx
      | Some other \<Rightarrow> Inl (RuntimeError ''read_index''))"

subsection \<open>\<^verbatim>\<open>BM25Retriever\<close>\<close>

text \<open>
  The libraries: \<open>get_scores\<close> is \<^verbatim>\<open>BM25Okapi.get_scores\<close> (one score for each document
  of the corpus the model was built from), \<open>argsort\<close> is \<^verbatim>\<open>numpy.argsort\<close> (indices that
  sort the scores in ascending order). The constructor \<^verbatim>\<open>BM25Okapi(corpus)\<close> divides by
  the number of documents and by the number of distinct words.
\<close>

record bm25_lib =
  get_scores :: "BM25Okapi \<Rightarrow> string list \<Rightarrow> exn + real list"
  argsort :: "real list \<Rightarrow> nat list"

definition new_BM25Okapi :: "string list list \<Rightarrow> exn + BM25Okapi" where
  "new_BM25Okapi corpus =
     (if corpus = [] \<or> concat corpus = [] then Inl (RuntimeError ''ZeroDivisionError'')
      else Inr (BM25Okapi corpus))"

record BM25Retriever =
  data_path :: "string option"
  bm25_fr :: "BM25Okapi option"
  bm25_ar :: "BM25Okapi option"
  tokenized_corpus_fr :: "string list list"
  tokenized_corpus_ar :: "string list list"
  documents_fr :: "doc list"
  documents_ar :: "doc list"

text \<open>\<^verbatim>\<open>BM25Okapi(corpus) if corpus else None\<close>\<close>

definition model_of :: "string list list \<Rightarrow> exn + BM25Okapi option" where
  "model_of corpus =
     (if corpus = [] then Inr None
      else case new_BM25Okapi corpus of Inl e \<Rightarrow> Inl e | Inr m \<Rightarrow> Inr (Some m))"

definition bm25_save_data :: "fs \<Rightarrow> BM25Retriever \<Rightarrow> fs" where
  "bm25_save_data fsys r =
     (case data_path r of
        None \<Rightarrow> fsys
      | Some p \<Rightarrow>
          if p = [] then fsys
          else case makedirs fsys (dirname p) of
            Inl e \<Rightarrow> fsys
          | Inr fs1 \<Rightarrow>
              (case write_file fs1 p
                      (PickleFile (ObjDict (Some (tokenized_corpus_fr r))
                         (Some (tokenized_corpus_ar r))
                         (Some (documents_fr r)) (Some (documents_ar r)))) of
                 Inl e \<Rightarrow> fs1
               | Inr fs2 \<Rightarrow> fs2))"

text \<open>The first loop of \<^verbatim>\<open>build_index\<close>; \<open>i\<close> is the position of the document, and
  \<^verbatim>\<open>texts[i]\<close> raises when the texts are fewer than the documents.\<close>

fun separate_languages ::
  "string list \<Rightarrow> nat \<Rightarrow> doc list \<Rightarrow> exn + (string list \<times> doc list \<times> string list \<times> doc list)" where
  "separate_languages texts i [] = Inr ([], [], [], [])"
| "separate_languages texts i (d # ds) =
     (if doc_language d = Some ''fr'' then
        (if i < length texts then
           (case separate_languages texts (Suc i) ds of
              Inl e \<Rightarrow> Inl e
            | Inr (texts_fr, docs_fr, texts_ar, docs_ar) \<Rightarrow>
                Inr (texts ! i # texts_fr, d # docs_fr, texts_ar, docs_ar))
         else Inl IndexError)
      else if doc_language d = Some ''ar'' then
        (if i < length texts then
           (case separate_languages texts (Suc i) ds of
              Inl e \<Rightarrow> Inl e
            | Inr (texts_fr, docs_fr, texts_ar, docs_ar) \<Rightarrow>
                Inr (texts_fr, docs_fr, texts ! i # texts_ar, d # docs_ar))
         else Inl IndexError)
      else separate_languages texts (Suc i) ds)"

text \<open>Tokenise, and keep the documents whose token list is not empty.\<close>

definition tokenize_and_filter ::
  "TextProcessor \<Rightarrow> string \<Rightarrow> string list \<Rightarrow> doc list \<Rightarrow> (string list \<times> doc) list" where
  "tokenize_and_filter tp lang texts docs =
     filter (\<lambda>(tokens, d). tokens \<noteq> [])
       (zip (map (\<lambda>text. preprocess tp text (Some lang)) texts) docs)"

definition bm25_build_index ::
  "TextProcessor \<Rightarrow> fs \<Rightarrow> BM25Retriever \<Rightarrow> string list \<Rightarrow> doc list \<Rightarrow> exn + (BM25Retriever \<times> fs)" where
  "bm25_build_index tp fsys r texts documents =
     (case separate_languages texts 0 documents of
        Inl e \<Rightarrow> Inl e
      | Inr (texts_fr, docs_fr, texts_ar, docs_ar) \<Rightarrow>
          let filtered_fr = tokenize_and_filter tp ''fr'' texts_fr docs_fr;
              filtered_ar = tokenize_and_filter tp ''ar'' texts_ar docs_ar
          in case model_of (map fst filtered_fr) of
               Inl e \<Rightarrow> Inl e
             | Inr m_fr \<Rightarrow>
                 (case model_of (map fst filtered_ar) of
                    Inl e \<Rightarrow> Inl e
                  | Inr m_ar \<Rightarrow>
                      let r' = r\<lparr>bm25_fr := m_fr, bm25_ar := m_ar,
                                 tokenized_corpus_fr := map fst filtered_fr,
                                 tokenized_corpus_ar := map fst filtered_ar,
                                 documents_fr := map snd filtered_fr,
                                 documents_ar := map snd filtered_ar\<rparr>
                      in Inr (r', if truthy (data_path r') then bm25_save_data fsys r' else fsys)))"

text \<open>\<^verbatim>\<open>load_index\<close>: the attributes are assigned before the models are rebuilt, so a
  constructor that raises leaves the new corpora with the old models.\<close>

definition bm25_load_index :: "fs \<Rightarrow> BM25Retriever \<Rightarrow> bool \<times> BM25Retriever" where
  "bm25_load_index fsys r =
     (case data_path r of
        None \<Rightarrow> (False, r)
      | Some p \<Rightarrow>
          if p = [] \<or> \<not> path_exists fsys p then (False, r)
          else case pickle_load fsys p of
            Inl e \<Rightarrow> (False, r)
          | Inr (ObjDict tc_fr tc_ar d_fr d_ar) \<Rightarrow>
              (let r1 = r\<lparr>tokenized_corpus_fr := (case tc_fr of None \<Rightarrow> [] | Some v \<Rightarrow> v),
                           tokenized_corpus_ar := (case tc_ar of None \<Rightarrow> [] | Some v \<Rightarrow> v),
                           documents_fr := (case d_fr of None \<Rightarrow> [] | Some v \<Rightarrow> v),
                           documents_ar := (case d_ar of None \<Rightarrow> [] | Some v \<Rightarrow> v)\<rparr>
               in case model_of (tokenized_corpus_fr r1) of
                    Inl e \<Rightarrow> (False, r1)
                  | Inr m_fr \<Rightarrow>
                      (case model_of (tokenized_corpus_ar r1) of
                         Inl e \<Rightarrow> (False, r1\<lparr>bm25_fr := m_fr\<rparr>)
                       | Inr m_ar \<Rightarrow> (True, r1\<lparr>bm25_fr := m_fr, bm25_ar := m_ar\<rparr>)))
          | Inr other \<Rightarrow> (False, r))"

text \<open>The loop over \<^verbatim>\<open>enumerate(top_indices)\<close>.\<close>

fun collect_results :: "doc list \<Rightarrow> real list \<Rightarrow> (nat \<times> nat) list \<Rightarrow> exn + result list" where
  "collect_results docs scores [] = Inr []"
| "collect_results docs scores ((i, idx) # rest) =
     (if idx < length docs then
        (if idx < length scores then
           (if scores ! idx > 0 then
              (case collect_results docs scores rest of
                 Inl e \<Rightarrow> Inl e
               | Inr rs \<Rightarrow>
                   Inr (\<lparr>document = docs ! idx, score = scores ! idx, rank = int i + 1,
                         faiss_score = None, bm25_score = None\<rparr> # rs))
            else collect_results docs scores rest)
         else Inl IndexError)
      else collect_results docs scores rest)"

text \<open>\<^verbatim>\<open>np.argsort(scores)[-top_k:][::-1]\<close>\<close>

definition top_indices :: "bm25_lib \<Rightarrow> real list \<Rightarrow> int \<Rightarrow> nat list" where
  "top_indices lib scores top_k = rev (py_slice_from (- top_k) (argsort lib scores))"

definition search_language ::
  "bm25_lib \<Rightarrow> BM25Okapi \<Rightarrow> doc list \<Rightarrow> string list \<Rightarrow> int \<Rightarrow> result list" where
  "search_language lib model docs tokenized_query top_k =
     (case get_scores lib model tokenized_query of
        Inl e \<Rightarrow> []
      | Inr scores \<Rightarrow>
          (case collect_results docs scores (enumerate 0 (top_indices lib scores top_k)) of
             Inl e \<Rightarrow> []
           | Inr results \<Rightarrow> results))"

definition bm25_search ::
  "bm25_lib \<Rightarrow> TextProcessor \<Rightarrow> BM25Retriever \<Rightarrow> string \<Rightarrow> int \<Rightarrow> string option \<Rightarrow> result list" where
  "bm25_search lib tp r query top_k language =
     (if blank query then []
      else
        let lang = resolve_language tp language query;
            tokenized_query = preprocess tp query (Some lang)
        in if tokenized_query = [] then []
           else if lang = ''fr'' \<and> bm25_fr r \<noteq> None then
             (case bm25_fr r of
                Some model \<Rightarrow> search_language lib model (documents_fr r) tokenized_query top_k
              | None \<Rightarrow> [])
           else if lang = ''ar'' \<and> bm25_ar r \<noteq> None then
             (case bm25_ar r of
                Some model \<Rightarrow> search_language lib model (documents_ar r) tokenized_query top_k
              | None \<Rightarrow> [])
           else [])"

subsection \<open>\<^verbatim>\<open>FAISSRetriever\<close>\<close>

text \<open>
  The libraries: \<open>encode\<close> is \<^verbatim>\<open>SentenceTransformer(model).encode(texts)\<close>, one vector
  for each text; \<open>normalize_L2\<close> is \<^verbatim>\<open>faiss.normalize_L2\<close>; \<open>index_search\<close> is
  \<^verbatim>\<open>index.search(x, k)\<close>, read as the list \<^verbatim>\<open>zip(scores[0], indices[0])\<close>.
\<close>

record faiss_lib =
  encode :: "string \<Rightarrow> string list \<Rightarrow> exn + real list list"
  normalize_L2 :: "real list list \<Rightarrow> real list list"
  index_search :: "faiss_index \<Rightarrow> real list list \<Rightarrow> int \<Rightarrow> exn + (real \<times> int) list"

fun ntotal :: "faiss_index \<Rightarrow> nat" where
  "ntotal (IndexFlatIP d rows) = length rows"

fun index_add :: "faiss_index \<Rightarrow> real list list \<Rightarrow> faiss_index" where
  "index_add (IndexFlatIP d rows) xs = IndexFlatIP d (rows @ xs)"

text \<open>\<^verbatim>\<open>self.documents\<close> is a list of documents after \<^verbatim>\<open>__init__\<close> and \<^verbatim>\<open>build_index\<close>;
  \<^verbatim>\<open>load_index\<close> assigns whatever object the pickle holds.\<close>

record FAISSRetriever =
  index_path :: "string option"
  embedding_model :: string
  index :: "faiss_index option"
  documents :: py_obj

text \<open>\<^verbatim>\<open>_create_embeddings\<close>: \<^verbatim>\<open>None\<close> when the encoder raises.\<close>

definition create_embeddings ::
  "faiss_lib \<Rightarrow> FAISSRetriever \<Rightarrow> string list \<Rightarrow> real list list option" where
  "create_embeddings lib r texts =
     (case encode lib (embedding_model r) texts of Inl e \<Rightarrow> None | Inr m \<Rightarrow> Some m)"

text \<open>\<^verbatim>\<open>self.index_path.replace('.bin', '_docs.pkl')\<close>\<close>

definition documents_path :: "string \<Rightarrow> string" where
  "documents_path p = replace ''.bin'' ''_docs.pkl'' p"

text \<open>\<^verbatim>\<open>_save_index\<close>: an exception ends the function and keeps what was written
  before it.\<close>

definition faiss_save_index :: "fs \<Rightarrow> FAISSRetriever \<Rightarrow> fs" where
  "faiss_save_index fsys r =
     (case index_path r of
        None \<Rightarrow> fsys
      | Some p \<Rightarrow>
          if p = [] then fsys
          else case makedirs fsys (dirname p) of
            Inl e \<Rightarrow> fsys
          | Inr fs1 \<Rightarrow>
              (case index r of
                 None \<Rightarrow> fs1
               | Some idx \<Rightarrow>
                   (case write_file fs1 p (FaissFile idx) of
                      Inl e \<Rightarrow> fs1
                    | Inr fs2 \<Rightarrow>
                        (case write_file fs2 (documents_path p)
                                (PickleFile (documents r)) of
                           Inl e \<Rightarrow> fs2
                         | Inr fs3 \<Rightarrow> fs3))))"

definition faiss_build_index ::
  "faiss_lib \<Rightarrow> fs \<Rightarrow> FAISSRetriever \<Rightarrow> string list \<Rightarrow> doc list \<Rightarrow> exn + (FAISSRetriever \<times> fs)" where
  "faiss_build_index lib fsys r texts docs =
     (if texts = [] \<or> docs = [] then Inr (r, fsys)
      else if length texts \<noteq> length docs
      then Inl (ValueError ''Number of texts and documents must match'')
      else
        let filtered = filter (\<lambda>(text, d). \<not> blank text) (zip texts docs)
        in if filtered = [] then Inr (r\<lparr>documents := ObjDocs docs\<rparr>, fsys)
           else
             let r1 = r\<lparr>documents := ObjDocs (map snd filtered)\<rparr>
             in case create_embeddings lib r1 (map fst filtered) of
                  None \<Rightarrow> Inr (r1, fsys)
                | Some [] \<Rightarrow> Inr (r1, fsys)
                | Some (e # es) \<Rightarrow>
                    let dimension = length e;
                        r2 = r1\<lparr>index :=
                               Some (index_add (IndexFlatIP dimension [])
                                       (normalize_L2 lib (e # es)))\<rparr>
                    in Inr (r2, if truthy (index_path r2) then faiss_save_index fsys r2
                                else fsys))"

text \<open>\<^verbatim>\<open>load_index\<close>: the index is assigned before the documents are read, and the
  unpickled object is assigned unchecked.\<close>

definition faiss_load_index :: "fs \<Rightarrow> FAISSRetriever \<Rightarrow> bool \<times> FAISSRetriever" where
  "faiss_load_index fsys r =
     (case index_path r of
        None \<Rightarrow> (False, r)
      | Some p \<Rightarrow>
          if p = [] \<or> \<not> path_exists fsys p then (False, r)
          else case read_index fsys p of
            Inl e \<Rightarrow> (False, r)
          | Inr idx \<Rightarrow>
              (let r1 = r\<lparr>index := Some idx\<rparr>
               in if path_exists fsys (documents_path p)
                  then (case pickle_load fsys (documents_path p) of
                          Inl e \<Rightarrow> (False, r1)
                        | Inr obj \<Rightarrow> (True, r1\<lparr>documents := obj\<rparr>))
                  else (True, r1\<lparr>documents := ObjDocs []\<rparr>)))"

text \<open>The loop over the candidates: \<open>results\<close> is the list built so far; the loop
  ends when it has \<open>top_k\<close> elements.\<close>

fun extract_results ::
  "doc list \<Rightarrow> string option \<Rightarrow> int \<Rightarrow> (real \<times> int) list \<Rightarrow> result list \<Rightarrow> result list" where
  "extract_results docs language top_k [] results = results"
| "extract_results docs language top_k ((s, idx) # rest) results =
     (if idx < 0 \<or> idx \<ge> int (length docs) then extract_results docs language top_k rest results
      else if truthy language \<and> doc_language (docs ! nat idx) \<noteq> language
      then extract_results docs language top_k rest results
      else
        let results' = results @ [\<lparr>document = docs ! nat idx, score = s,
                                   rank = int (length results) + 1,
                                   faiss_score = None, bm25_score = None\<rparr>]
        in if int (length results') \<ge> top_k then results'
           else extract_results docs language top_k rest results')"

text \<open>
  The same loop when \<^verbatim>\<open>self.documents\<close> is not a list. \<open>py_len\<close> is \<^verbatim>\<open>len\<close>: a dictionary
  has as many elements as keys, the third kind of object has no length
  (\<^verbatim>\<open>TypeError\<close>). The test \<^verbatim>\<open>idx < 0\<close> comes first; a candidate that passes both tests
  is looked up, and a dictionary whose keys are strings raises \<^verbatim>\<open>KeyError\<close> at an
  integer.
\<close>

fun py_len :: "py_obj \<Rightarrow> nat option" where
  "py_len (ObjDocs ds) = Some (length ds)"
| "py_len (ObjDict tc_fr tc_ar d_fr d_ar) =
     Some (length (filter (\<lambda>k. k) [tc_fr \<noteq> None, tc_ar \<noteq> None, d_fr \<noteq> None, d_ar \<noteq> None]))"
| "py_len ObjOther = None"

fun extract_no_list :: "nat option \<Rightarrow> (real \<times> int) list \<Rightarrow> exn + result list" where
  "extract_no_list len [] = Inr []"
| "extract_no_list len ((s, idx) # rest) =
     (if idx < 0 then extract_no_list len rest
      else case len of
        None \<Rightarrow> Inl (RuntimeError ''TypeError'')
      | Some n \<Rightarrow>
          (if idx \<ge> int n then extract_no_list len rest else Inl (KeyError ''idx'')))"

text \<open>The number of candidates asked of the index.\<close>

definition search_k :: "int \<Rightarrow> string option \<Rightarrow> int" where
  "search_k top_k language = (if truthy language then top_k * 3 else top_k)"

definition faiss_search ::
  "faiss_lib \<Rightarrow> FAISSRetriever \<Rightarrow> string \<Rightarrow> int \<Rightarrow> string option \<Rightarrow> result list" where
  "faiss_search lib r query top_k language =
     (case index r of
        None \<Rightarrow> []
      | Some idx \<Rightarrow>
          if blank query then []
          else case create_embeddings lib r [query] of
            None \<Rightarrow> []
          | Some [] \<Rightarrow> []
          | Some (q # qs) \<Rightarrow>
              (case index_search lib idx (normalize_L2 lib (q # qs))
                      (min (search_k top_k language) (int (ntotal idx))) of
                 Inl e \<Rightarrow> []
               | Inr candidates \<Rightarrow>
                   (case documents r of
                      ObjDocs docs \<Rightarrow> extract_results docs language top_k candidates []
                    | other \<Rightarrow>
                        (case extract_no_list (py_len other) candidates of
                           Inl e \<Rightarrow> []
                         | Inr results \<Rightarrow> results))))"

subsection \<open>The application's composition\<close>

text \<open>\<^verbatim>\<open>HybridRetriever(faiss_retriever, bm25_retriever)\<close> with the default weights, as
  \<^verbatim>\<open>initialize_components\<close> builds it.\<close>

definition make_hybrid ::
  "faiss_lib \<Rightarrow> bm25_lib \<Rightarrow> TextProcessor \<Rightarrow> FAISSRetriever \<Rightarrow> BM25Retriever \<Rightarrow> HybridRetriever" where
  "make_hybrid flib blib tp fr br =
     \<lparr>faiss_retriever = Some (\<lambda>query k language. Inr (faiss_search flib fr query k (Some language))),
      bm25_retriever = Some (\<lambda>query k language. Inr (bm25_search blib tp br query k (Some language))),
      faiss_weight = 1/2, bm25_weight = 1/2, text_processor = tp\<rparr>"

subsection \<open>Concrete libraries and data\<close>

text \<open>
  Where a statement is evaluated on a concrete input: the text processor that
  \<^verbatim>\<open>TextProcessor()\<close> makes when NLTK is not installed, and executable libraries, that
  is the stable ascending argsort, the scores of \<^verbatim>\<open>BM25Okapi\<close>, the exact
  inner-product search of a flat index, and an encoder with two-dimensional unit
  vectors. The texts and queries of the examples are ASCII, so nothing is said of
  \<open>non_ascii\<close>.
\<close>

definition basic_tp :: "(string \<Rightarrow> exn + string) option \<Rightarrow> TextProcessor" where
  "basic_tp detect = new_TextProcessor detect None undefined"

definition stable_argsort :: "real list \<Rightarrow> nat list" where
  "stable_argsort scores = sort_key (\<lambda>i. scores ! i) [0..<length scores]"

definition mk_doc :: "string \<Rightarrow> string option \<Rightarrow> doc" where
  "mk_doc k l = \<lparr>doc_id = Some k, doc_language = l, doc_attrs = []\<rparr>"

definition mk_result :: "doc \<Rightarrow> real \<Rightarrow> int \<Rightarrow> result" where
  "mk_result d s k =
     \<lparr>document = d, score = s, rank = k, faiss_score = None, bm25_score = None\<rparr>"


definition dot :: "real list \<Rightarrow> real list \<Rightarrow> real" where
  "dot x y = sum_list (map (\<lambda>(a, b). a * b) (zip x y))"

fun flat_search :: "faiss_index \<Rightarrow> real list list \<Rightarrow> int \<Rightarrow> exn + (real \<times> int) list" where
  "flat_search (IndexFlatIP d rows) xs k =
     (if k \<le> 0 then Inl (RuntimeError ''k > 0'')
      else case xs of
        [] \<Rightarrow> Inl (RuntimeError ''empty query'')
      | x # rest \<Rightarrow>
          Inr (take (nat k)
                 (sort_key (\<lambda>(s, i). - s)
                    (zip (map (dot x) rows) (map int [0..<length rows])))))"

definition l2_normalize :: "real list list \<Rightarrow> real list list" where
  "l2_normalize m = map (\<lambda>v. if dot v v = 0 then v else map (\<lambda>a. a / sqrt (dot v v)) v) m"

definition ex_encode :: "string \<Rightarrow> string list \<Rightarrow> exn + real list list" where
  "ex_encode model texts =
     Inr (map (\<lambda>t. if take 7 t = ''capital'' then [1, 0] else [0, 1]) texts)"

definition ex_faiss_lib :: faiss_lib where
  "ex_faiss_lib =
     \<lparr>encode = ex_encode, normalize_L2 = l2_normalize, index_search = flat_search\<rparr>"

text \<open>
  The scores of \<^verbatim>\<open>rank_bm25.BM25Okapi\<close> with its default parameters
  (\<open>k1 = 1.5\<close>, \<open>b = 0.75\<close>, \<open>epsilon = 0.25\<close>): the inverse document frequency of a
  word is \<open>ln (N - n + 0.5) - ln (n + 0.5)\<close>, replaced by \<open>epsilon\<close> times the average
  when it is negative; a word that is not in the corpus weighs nothing.
\<close>

definition okapi_idf :: "string list list \<Rightarrow> string \<Rightarrow> real" where
  "okapi_idf corpus w =
     (let n = real (length (filter (\<lambda>d. w \<in> set d) corpus))
      in ln (real (length corpus) - n + 1/2) - ln (n + 1/2))"

definition okapi_eps :: "string list list \<Rightarrow> real" where
  "okapi_eps corpus =
     (let ws = remdups (concat corpus)
      in (1/4) * (sum_list (map (okapi_idf corpus) ws) / real (length ws)))"

definition okapi_weight :: "string list list \<Rightarrow> string \<Rightarrow> real" where
  "okapi_weight corpus w =
     (if w \<in> set (concat corpus)
      then (if okapi_idf corpus w < 0 then okapi_eps corpus else okapi_idf corpus w)
      else 0)"

definition okapi_avgdl :: "string list list \<Rightarrow> real" where
  "okapi_avgdl corpus = real (length (concat corpus)) / real (length corpus)"

definition okapi_scores :: "string list list \<Rightarrow> string list \<Rightarrow> real list" where
  "okapi_scores corpus query =
     map (\<lambda>d. sum_list (map (\<lambda>q.
            okapi_weight corpus q *
              (real (count_list d q) * (3/2 + 1) /
                (real (count_list d q)
                   + 3/2 * (1 - 3/4 + 3/4 * real (length d) / okapi_avgdl corpus)))) query))
       corpus"

fun okapi_get_scores :: "BM25Okapi \<Rightarrow> string list \<Rightarrow> exn + real list" where
  "okapi_get_scores (BM25Okapi corpus) query = Inr (okapi_scores corpus query)"

definition ex_bm25_lib :: bm25_lib where
  "ex_bm25_lib = \<lparr>get_scores = okapi_get_scores, argsort = stable_argsort\<rparr>"

text \<open>The retrievers as their constructors leave them, and a file system with no
  file.\<close>

definition new_BM25Retriever :: "string option \<Rightarrow> BM25Retriever" where
  "new_BM25Retriever p =
     \<lparr>data_path = p, bm25_fr = None, bm25_ar = None,
      tokenized_corpus_fr = [], tokenized_corpus_ar = [],
      documents_fr = [], documents_ar = []\<rparr>"

definition new_FAISSRetriever :: "string option \<Rightarrow> string \<Rightarrow> FAISSRetriever" where
  "new_FAISSRetriever p model =
     \<lparr>index_path = p, embedding_model = model, index = None, documents = ObjDocs []\<rparr>"

definition fs_empty :: fs where
  "fs_empty = \<lparr>files = (\<lambda>p. None), dirs = {}\<rparr>"

text \<open>A corpus of five French documents, and the token lists that \<^verbatim>\<open>preprocess\<close> makes
  of its texts.\<close>

definition ex_texts :: "string list" where
  "ex_texts = [''capital sarl'', ''capital suarl'', ''delai immatriculation'',
               ''documents requis'', ''statuts societe'']"

definition ex_docs :: "doc list" where
  "ex_docs = [mk_doc ''A_fr'' (Some ''fr''), mk_doc ''B_fr'' (Some ''fr''),
              mk_doc ''C_fr'' (Some ''fr''), mk_doc ''D_fr'' (Some ''fr''),
              mk_doc ''E_fr'' (Some ''fr'')]"

definition ex_corpus :: "string list list" where
  "ex_corpus = [[''capital'', ''sarl''], [''capital'', ''suarl''],
                [''delai'', ''immatriculation''], [''documents'', ''requis''],
                [''statuts'', ''societe'']]"

text \<open>The BM25 retriever that \<^verbatim>\<open>build_index\<close> makes of this corpus.\<close>

definition ex_bm25 :: BM25Retriever where
  "ex_bm25 =
     \<lparr>data_path = None, bm25_fr = Some (BM25Okapi ex_corpus), bm25_ar = None,
      tokenized_corpus_fr = ex_corpus, tokenized_corpus_ar = [],
      documents_fr = ex_docs, documents_ar = []\<rparr>"

text \<open>A corpus of six documents: three French ones, an English one, one without a
  language, and one marked Arabic whose text is in Latin letters but for a number (the
  normalisation for \<open>ar\<close> keeps the number only).\<close>

definition ex_mixed_texts :: "string list" where
  "ex_mixed_texts = [''capital sarl'', ''ras almal 1446'', ''capital suarl'', ''capital gains'',
                     ''capital note'', ''delai immatriculation'']"

definition ex_mixed_docs :: "doc list" where
  "ex_mixed_docs = [mk_doc ''A_fr'' (Some ''fr''), mk_doc ''X_ar'' (Some ''ar''),
                    mk_doc ''B_fr'' (Some ''fr''), mk_doc ''Y_en'' (Some ''en''),
                    mk_doc ''Z'' None, mk_doc ''C_fr'' (Some ''fr'')]"

text \<open>The two retrievers that \<^verbatim>\<open>build_index\<close> makes of it.\<close>

definition ex_mixed_faiss :: FAISSRetriever where
  "ex_mixed_faiss =
     \<lparr>index_path = None, embedding_model = ''all-MiniLM-L6-v2'',
      index = Some (IndexFlatIP 2 [[1, 0], [0, 1], [1, 0], [1, 0], [1, 0], [0, 1]]),
      documents = ObjDocs ex_mixed_docs\<rparr>"

definition ex_mixed_bm25 :: BM25Retriever where
  "ex_mixed_bm25 =
     \<lparr>data_path = None,
      bm25_fr = Some (BM25Okapi [[''capital'', ''sarl''], [''capital'', ''suarl''],
                                 [''delai'', ''immatriculation'']]),
      bm25_ar = Some (BM25Okapi [[''1446'']]),
      tokenized_corpus_fr = [[''capital'', ''sarl''], [''capital'', ''suarl''],
                             [''delai'', ''immatriculation'']],
      tokenized_corpus_ar = [[''1446'']],
      documents_fr = [mk_doc ''A_fr'' (Some ''fr''), mk_doc ''B_fr'' (Some ''fr''),
                      mk_doc ''C_fr'' (Some ''fr'')],
      documents_ar = [mk_doc ''X_ar'' (Some ''ar'')]\<rparr>"


definition ex_bm25_pickle :: file_content where
  "ex_bm25_pickle = PickleFile (ObjDict (Some (tokenized_corpus_fr ex_mixed_bm25))
      (Some (tokenized_corpus_ar ex_mixed_bm25)) (Some (documents_fr ex_mixed_bm25))
      (Some (documents_ar ex_mixed_bm25)))"

subsection \<open>Notions used in the statements\<close>

text \<open>The documents that a vector search can return: those of the list
  \<^verbatim>\<open>self.documents\<close>, none when the attribute is not a list.\<close>

fun doc_list :: "py_obj \<Rightarrow> doc list" where
  "doc_list (ObjDocs ds) = ds"
| "doc_list (ObjDict tc_fr tc_ar d_fr d_ar) = []"
| "doc_list ObjOther = []"

text \<open>The candidates of a vector search that name a stored document of language \<open>l\<close>,
  and the results made of a list of candidates, ranked from \<open>n + 1\<close>.\<close>

definition matching :: "doc list \<Rightarrow> string \<Rightarrow> (real \<times> int) list \<Rightarrow> (real \<times> int) list" where
  "matching docs l candidates =
     filter (\<lambda>(s, i). 0 \<le> i \<and> i < int (length docs) \<and> doc_language (docs ! nat i) = Some l)
       candidates"

definition ranked_from :: "doc list \<Rightarrow> nat \<Rightarrow> (real \<times> int) list \<Rightarrow> result list" where
  "ranked_from docs n cs =
     map (\<lambda>(n, (s, i)). \<lparr>document = docs ! nat i, score = s, rank = int n + 1,
                           faiss_score = None, bm25_score = None\<rparr>)
       (enumerate n cs)"

text \<open>
  The fusion as the specification words it. \<open>minmax rs s\<close> is the min-max
  normalisation of the score \<open>s\<close> within the results \<open>rs\<close>, \<open>1\<close> when all their scores
  are equal. \<open>contribution rs k\<close> is the normalised score of the document with id \<open>k\<close> in
  the source \<open>rs\<close>, \<open>0\<close> when the source does not have it. \<open>fused_entries\<close> lists the
  documents of the vector source, then those of the lexical source that the vector
  source does not have, each with its two weighted contributions and their sum.
  \<open>fusion_spec\<close> sorts them by the sum, in descending order and keeping the order of
  equal sums, keeps the first \<open>top_k\<close> and ranks them from 1.
\<close>

definition minmax :: "result list \<Rightarrow> real \<Rightarrow> real" where
  "minmax rs s =
     (let lo = Min (score ` set rs); hi = Max (score ` set rs)
      in if hi = lo then 1 else (s - lo) / (hi - lo))"






subsection \<open>Notions used in the proofs\<close>

text \<open>The key of a result in \<^verbatim>\<open>doc_scores\<close>, the entries that the two loops of
  \<^verbatim>\<open>_combine_results\<close> write, and the normalisation of one result.\<close>

definition key :: "result \<Rightarrow> string" where
  "key r = (case doc_id (document r) of Some k \<Rightarrow> k | None \<Rightarrow> [])"




definition norm_in :: "result list \<Rightarrow> result \<Rightarrow> result" where
  "norm_in rs r = r\<lparr>score := minmax rs (score r)\<rparr>"


section \<open>Properties\<close>

subsection \<open>Slices\<close>



lemma not_blank_capital: "\<not> blank ''capital''"
  by (simp add: blank_def strip_empty_def)

subsection \<open>\<^verbatim>\<open>HybridRetriever.search\<close>: one source fails or is empty\<close>





subsection \<open>\<^verbatim>\<open>BM25Retriever.search\<close>\<close>







lemmas tokenizer_defs =
  preprocess_def resolve_language_def basic_tp_def new_TextProcessor_def is_ascii_def
  normalize_text_def url_at_def email_run_def kept_def re_space_def re_digit_def re_word_def
  strip_def lower_def tokenize_def meaningful_short_def remove_stopwords_def
  basic_fr_stopwords_def basic_ar_stopwords_def Let_def char_of_eq_iff

lemma ex_tokens:
  "preprocess (basic_tp d) ''capital'' (Some ''fr'') = [''capital'']"
  "preprocess (basic_tp d) ''capital sarl'' (Some ''fr'') = [''capital'', ''sarl'']"
  "preprocess (basic_tp d) ''capital suarl'' (Some ''fr'') = [''capital'', ''suarl'']"
  "preprocess (basic_tp d) ''delai immatriculation'' (Some ''fr'')
     = [''delai'', ''immatriculation'']"
  "preprocess (basic_tp d) ''documents requis'' (Some ''fr'') = [''documents'', ''requis'']"
  "preprocess (basic_tp d) ''statuts societe'' (Some ''fr'') = [''statuts'', ''societe'']"
  "preprocess (basic_tp d) ''ras almal 1446'' (Some ''ar'') = [''1446'']"
  by (simp_all add: tokenizer_defs)

text \<open>The stop words are removed and the text is put in lower case: \<open>la\<close> and \<open>sa\<close> are
  in \<^verbatim>\<open>basic_fr_stopwords\<close>.\<close>

lemma ex_tokens_stopwords:
  "preprocess (basic_tp d) ''Le capital de la SA'' (Some ''fr'') = [''capital'']"
  by (simp add: tokenizer_defs)


lemma ex_scores:
  "okapi_scores ex_corpus [''capital''] = [ln (7/2) - ln (5/2), ln (7/2) - ln (5/2), 0, 0, 0]"
  by (simp add: okapi_scores_def ex_corpus_def okapi_weight_def okapi_idf_def okapi_avgdl_def)







subsection \<open>\<^verbatim>\<open>FAISSRetriever.search\<close>\<close>

lemma extract_no_list_empty: "extract_no_list len cands = Inr rs \<Longrightarrow> rs = []"
  by (induction len cands rule: extract_no_list.induct) (auto split: if_splits option.splits)

lemma extract_results_no_docs: "extract_results [] language top_k cands acc = acc"
  by (induction cands) auto

lemma faiss_search_as_list:
  "faiss_search lib r query top_k language = []
   \<or> (\<exists>cands. faiss_search lib r query top_k language
         = extract_results (doc_list (documents r)) language top_k cands [])"
proof (cases "documents r")
  case (ObjDocs ds)
  then show ?thesis
    by (auto simp: faiss_search_def split: option.splits list.splits sum.splits)
next
  case (ObjDict a b c d)
  then show ?thesis
    by (auto simp: faiss_search_def dest: extract_no_list_empty
        split: option.splits list.splits sum.splits)
next
  case ObjOther
  then show ?thesis
    by (auto simp: faiss_search_def dest: extract_no_list_empty
        split: option.splits list.splits sum.splits)
qed

lemma extract_results_acc:
  assumes "l \<noteq> []" and "int (length acc) < top_k"
  shows "extract_results docs (Some l) top_k cands acc
       = acc @ ranked_from docs (length acc)
                 (take (nat top_k - length acc) (matching docs l cands))"
  using assms(2)
proof (induction cands arbitrary: acc)
  case Nil
  then show ?case by (simp add: matching_def ranked_from_def)
next
  case (Cons c cands)
  obtain s i where c: "c = (s, i)" by (cases c)
  show ?case
  proof (cases "0 \<le> i \<and> i < int (length docs) \<and> doc_language (docs ! nat i) = Some l")
    case False
    then have "extract_results docs (Some l) top_k (c # cands) acc
             = extract_results docs (Some l) top_k cands acc"
      using assms(1) by (auto simp: c truthy_def)
    moreover from False have "matching docs l (c # cands) = matching docs l cands"
      by (auto simp: matching_def c)
    ultimately show ?thesis using Cons.IH [OF Cons.prems] by simp
  next
    case True
    let ?new = "\<lparr>document = docs ! nat i, score = s, rank = int (length acc) + 1,
                   faiss_score = None, bm25_score = None\<rparr>"
    from True have m: "matching docs l (c # cands) = (s, i) # matching docs l cands"
      by (auto simp: matching_def c)
    from Cons.prems obtain k where k: "nat top_k - length acc = Suc k"
      by (cases "nat top_k - length acc") auto
    show ?thesis
    proof (cases "top_k \<le> int (length acc) + 1")
      case t: True
      with True have "extract_results docs (Some l) top_k (c # cands) acc = acc @ [?new]"
        using assms(1) by (auto simp: c truthy_def Let_def)
      moreover from t k have "k = 0" by linarith
      ultimately show ?thesis using k by (simp add: m ranked_from_def)
    next
      case f: False
      with True have "extract_results docs (Some l) top_k (c # cands) acc
            = extract_results docs (Some l) top_k cands (acc @ [?new])"
        using assms(1) by (auto simp: c truthy_def Let_def)
      moreover from f have "int (length (acc @ [?new])) < top_k" by simp
      note Cons.IH [OF this]
      moreover from k have "nat top_k - length (acc @ [?new]) = k" by simp
      ultimately show ?thesis using k by (simp add: m ranked_from_def)
    qed
  qed
qed

lemma ex_mixed_faiss_built:
  "faiss_build_index ex_faiss_lib fs_empty (new_FAISSRetriever None ''all-MiniLM-L6-v2'')
     ex_mixed_texts ex_mixed_docs = Inr (ex_mixed_faiss, fs_empty)"
  by (simp add: faiss_build_index_def ex_mixed_texts_def ex_mixed_docs_def
      new_FAISSRetriever_def blank_def strip_empty_def create_embeddings_def ex_faiss_lib_def
      ex_encode_def l2_normalize_def dot_def truthy_def ex_mixed_faiss_def
      Let_def)

lemma ex_query_embedding:
  "create_embeddings ex_faiss_lib ex_mixed_faiss [''capital''] = Some [[1, 0]]"
  by (simp add: create_embeddings_def ex_faiss_lib_def ex_encode_def)

lemma ex_flat_search_3:
  "flat_search (IndexFlatIP 2 [[1, 0], [0, 1], [1, 0], [1, 0], [1, 0], [0, 1]]) [[1, 0]] 3
     = Inr [(1, 0), (1, 2), (1, 3)]"
  by (simp add: dot_def upt_rec)

text \<open>
  C4. With a language filter \<open>l\<close> and \<open>top_k \<ge> 1\<close>, the vector search asks the index for
  \<open>min (top_k * 3) ntotal\<close> candidates; its result is made of the first \<open>top_k\<close> of
  those candidates that name a stored document of language \<open>l\<close>, in the order of the
  candidates and ranked from 1. So it has \<open>min top_k m\<close> elements, where \<open>m\<close> is the number
  of such candidates: fewer than \<open>top_k\<close> when \<open>m < top_k\<close>, and no error.
\<close>

theorem faiss_search_overfetch:
  assumes "index r = Some idx" and "\<not> blank query"
    and "language = Some l" and "l \<noteq> []" and "1 \<le> top_k"
    and "create_embeddings lib r [query] = Some (q # qs)"
    and "index_search lib idx (normalize_L2 lib (q # qs))
           (min (top_k * 3) (int (ntotal idx))) = Inr candidates"
  shows "faiss_search lib r query top_k language
           = ranked_from (doc_list (documents r)) 0
               (take (nat top_k) (matching (doc_list (documents r)) l candidates))
       \<and> length (faiss_search lib r query top_k language)
           = min (nat top_k) (length (matching (doc_list (documents r)) l candidates))"
proof -
  have "faiss_search lib r query top_k language
      = extract_results (doc_list (documents r)) (Some l) top_k candidates []"
  proof (cases "documents r")
    case (ObjDocs ds)
    with assms show ?thesis by (simp add: faiss_search_def search_k_def truthy_def)
  next
    case (ObjDict a b c d)
    with assms have "faiss_search lib r query top_k language = []"
      by (simp add: faiss_search_def search_k_def truthy_def extract_no_list_empty
          split: sum.split)
    with ObjDict show ?thesis by (simp add: extract_results_no_docs)
  next
    case ObjOther
    with assms have "faiss_search lib r query top_k language = []"
      by (simp add: faiss_search_def search_k_def truthy_def extract_no_list_empty
          split: sum.split)
    with ObjOther show ?thesis by (simp add: extract_results_no_docs)
  qed
  also have "\<dots> = ranked_from (doc_list (documents r)) 0
        (take (nat top_k) (matching (doc_list (documents r)) l candidates))"
    using extract_results_acc [OF assms(4), of "[]" top_k "doc_list (documents r)" candidates]
      assms(5)
    by simp
  finally show ?thesis by (simp add: ranked_from_def)
qed


theorem faiss_search_overfetch_witness:
  "faiss_search ex_faiss_lib ex_mixed_faiss ''capital'' 1 (Some ''fr'')
     = [mk_result (mk_doc ''A_fr'' (Some ''fr'')) 1 1]
   \<and> length (faiss_search ex_faiss_lib ex_mixed_faiss ''capital'' 1 (Some ''ar'')) = 0
   \<and> mk_doc ''X_ar'' (Some ''ar'') \<in> set (doc_list (documents ex_mixed_faiss))"
proof -
  have i: "index ex_mixed_faiss
      = Some (IndexFlatIP 2 [[1, 0], [0, 1], [1, 0], [1, 0], [1, 0], [0, 1]])"
    by (simp add: ex_mixed_faiss_def)
  have k: "(1::int) \<le> 1" by simp
  have c: "index_search ex_faiss_lib
             (IndexFlatIP 2 [[1, 0], [0, 1], [1, 0], [1, 0], [1, 0], [0, 1]])
             (normalize_L2 ex_faiss_lib [[1, 0]])
             (min (1 * 3) (int (ntotal (IndexFlatIP 2
                [[1, 0], [0, 1], [1, 0], [1, 0], [1, 0], [0, 1]]))))
           = Inr [(1, 0), (1, 2), (1, 3)]"
    using ex_flat_search_3 by (simp add: ex_faiss_lib_def l2_normalize_def dot_def)
  have fr: "''fr'' \<noteq> []" and ar: "''ar'' \<noteq> []" by simp_all
  show ?thesis
    using faiss_search_overfetch [OF i not_blank_capital refl fr k ex_query_embedding c]
      faiss_search_overfetch [OF i not_blank_capital refl ar k ex_query_embedding c]
    by (simp add: matching_def ranked_from_def ex_mixed_faiss_def ex_mixed_docs_def mk_doc_def
        mk_result_def)
qed

subsection \<open>Blank queries\<close>

text \<open>
  C9. For a query that is empty or consists of white space only, the BM25 search, the
  vector search and the hybrid search each return the empty list, whatever the state
  of the retrievers; none of the three has an exceptional outcome.
\<close>

theorem blank_query_returns_empty:
  assumes "query = [] \<or> strip_empty query"
  shows "bm25_search blib tp br query top_k language = []
       \<and> faiss_search flib fr query top_k language = []
       \<and> hybrid_search h query top_k language = []"
  using assms
  by (simp add: bm25_search_def faiss_search_def hybrid_search_def blank_def split: option.split)

theorem blank_query_returns_empty_witness:
  "strip_empty [CHR '' '', CHR 0x09, CHR 0xC2, CHR 0xA0]
   \<and> bm25_search ex_bm25_lib (basic_tp None) ex_mixed_bm25
        [CHR '' '', CHR 0x09, CHR 0xC2, CHR 0xA0] 3 None = []
   \<and> faiss_search ex_faiss_lib ex_mixed_faiss [CHR '' '', CHR 0x09, CHR 0xC2, CHR 0xA0] 3 None = []
   \<and> hybrid_search
        (make_hybrid ex_faiss_lib ex_bm25_lib (basic_tp None) ex_mixed_faiss ex_mixed_bm25)
        [CHR '' '', CHR 0x09, CHR 0xC2, CHR 0xA0] 3 None = []
   \<and> hybrid_search
        (make_hybrid ex_faiss_lib ex_bm25_lib (basic_tp None) ex_mixed_faiss ex_mixed_bm25)
        [] 3 (Some ''fr'') = []"
proof -
  have b: "strip_empty [CHR '' '', CHR 0x09, CHR 0xC2, CHR 0xA0]"
    by (simp add: strip_empty_def)
  then have "[CHR '' '', CHR 0x09, CHR 0xC2, CHR 0xA0] = [] \<or>
      strip_empty [CHR '' '', CHR 0x09, CHR 0xC2, CHR 0xA0]" by simp
  from blank_query_returns_empty [OF this]
    blank_query_returns_empty [of "[]"] b
  show ?thesis by simp
qed

subsection \<open>Language partitions\<close>

lemma separate_languages_filter:
  "separate_languages texts i ds = Inr (tf, df, ta, da) \<Longrightarrow>
     df = filter (\<lambda>d. doc_language d = Some ''fr'') ds
   \<and> da = filter (\<lambda>d. doc_language d = Some ''ar'') ds
   \<and> length tf = length df \<and> length ta = length da"
proof (induction ds arbitrary: i tf df ta da)
  case Nil
  then show ?case by simp
next
  case (Cons d ds)
  show ?case
  proof (cases "doc_language d = Some ''fr''")
    case fr: True
    with Cons.prems obtain tf' df' where
      r: "separate_languages texts (Suc i) ds = Inr (tf', df', ta, da)"
      and e: "tf = texts ! i # tf'" "df = d # df'"
      by (auto split: if_splits sum.splits)
    from Cons.IH [OF r] fr e show ?thesis by auto
  next
    case nfr: False
    show ?thesis
    proof (cases "doc_language d = Some ''ar''")
      case ar: True
      with nfr Cons.prems obtain ta' da' where
        r: "separate_languages texts (Suc i) ds = Inr (tf, df, ta', da')"
        and e: "ta = texts ! i # ta'" "da = d # da'"
        by (auto split: if_splits sum.splits)
      from Cons.IH [OF r] nfr ar e show ?thesis by auto
    next
      case False
      with nfr Cons.prems have "separate_languages texts (Suc i) ds = Inr (tf, df, ta, da)"
        by simp
      from Cons.IH [OF this] nfr False show ?thesis by auto
    qed
  qed
qed

lemma tokenize_and_filter_docs:
  "set (map snd (tokenize_and_filter tp lang texts ds)) \<subseteq> set ds"
  by (auto simp: tokenize_and_filter_def dest: set_zip_rightD)

lemma bm25_build_index_partitions:
  assumes "bm25_build_index tp fsys r texts docs = Inr (r', fsys')"
  shows "set (documents_fr r') \<subseteq> {d \<in> set docs. doc_language d = Some ''fr''}
       \<and> set (documents_ar r') \<subseteq> {d \<in> set docs. doc_language d = Some ''ar''}
       \<and> length (tokenized_corpus_fr r') = length (documents_fr r')
       \<and> length (tokenized_corpus_ar r') = length (documents_ar r')"
proof -
  from assms obtain tf df ta da where
    s: "separate_languages texts 0 docs = Inr (tf, df, ta, da)"
    and fr: "documents_fr r' = map snd (tokenize_and_filter tp ''fr'' tf df)"
            "tokenized_corpus_fr r' = map fst (tokenize_and_filter tp ''fr'' tf df)"
    and ar: "documents_ar r' = map snd (tokenize_and_filter tp ''ar'' ta da)"
            "tokenized_corpus_ar r' = map fst (tokenize_and_filter tp ''ar'' ta da)"
    by (auto simp: bm25_build_index_def Let_def split: sum.splits prod.splits)
  from separate_languages_filter [OF s]
  have "set df \<subseteq> {d \<in> set docs. doc_language d = Some ''fr''}"
    and "set da \<subseteq> {d \<in> set docs. doc_language d = Some ''ar''}" by auto
  with tokenize_and_filter_docs [of tp "''fr''" tf df]
    tokenize_and_filter_docs [of tp "''ar''" ta da] fr ar
  show ?thesis by (simp only: length_map) blast
qed

lemma extract_results_language:
  assumes "l \<noteq> []" and "\<forall>x\<in>set acc. doc_language (document x) = Some l"
  shows "\<forall>x\<in>set (extract_results docs (Some l) top_k cands acc).
           doc_language (document x) = Some l"
  using assms(2)
proof (induction cands arbitrary: acc)
  case Nil
  then show ?case by simp
next
  case (Cons c cands)
  obtain s i where c: "c = (s, i)" by (cases c)
  let ?new = "\<lparr>document = docs ! nat i, score = s, rank = int (length acc) + 1,
                 faiss_score = None, bm25_score = None\<rparr>"
  show ?case
  proof (cases "i < 0 \<or> int (length docs) \<le> i \<or> doc_language (docs ! nat i) \<noteq> Some l")
    case True
    then have "extract_results docs (Some l) top_k (c # cands) acc
             = extract_results docs (Some l) top_k cands acc"
      using assms(1) by (auto simp: c truthy_def)
    with Cons.IH [OF Cons.prems] show ?thesis by simp
  next
    case False
    then have new: "\<forall>x\<in>set (acc @ [?new]). doc_language (document x) = Some l"
      using Cons.prems by simp
    show ?thesis
    proof (cases "top_k \<le> int (length acc) + 1")
      case t: True
      with False have "extract_results docs (Some l) top_k (c # cands) acc = acc @ [?new]"
        using assms(1) by (auto simp: c truthy_def Let_def)
      with new show ?thesis by simp
    next
      case f: False
      with False have "extract_results docs (Some l) top_k (c # cands) acc
            = extract_results docs (Some l) top_k cands (acc @ [?new])"
        using assms(1) by (auto simp: c truthy_def Let_def)
      with Cons.IH [OF new] show ?thesis by simp
    qed
  qed
qed

lemma faiss_search_language:
  assumes "l \<noteq> []"
  shows "\<forall>x\<in>set (faiss_search lib r query top_k (Some l)). doc_language (document x) = Some l"
  using extract_results_language [OF assms, of "[]"]
    faiss_search_as_list [of lib r query top_k "Some l"]
  by auto

lemma ex_flat_search_5:
  "flat_search (IndexFlatIP 2 [[1, 0], [0, 1], [1, 0], [1, 0], [1, 0], [0, 1]]) [[1, 0]] 5
     = Inr [(1, 0), (1, 2), (1, 3), (1, 4), (0, 1)]"
  by (simp add: dot_def upt_rec)

lemma ex_mixed_faiss_search_none:
  "faiss_search ex_faiss_lib ex_mixed_faiss ''capital'' 5 None
     = [mk_result (mk_doc ''A_fr'' (Some ''fr'')) 1 1, mk_result (mk_doc ''B_fr'' (Some ''fr'')) 1 2,
        mk_result (mk_doc ''Y_en'' (Some ''en'')) 1 3, mk_result (mk_doc ''Z'' None) 1 4,
        mk_result (mk_doc ''X_ar'' (Some ''ar'')) 0 5]"
  using ex_flat_search_5
  by (simp add: faiss_search_def ex_mixed_faiss_def not_blank_capital create_embeddings_def
      ex_faiss_lib_def ex_encode_def l2_normalize_def dot_def search_k_def
      truthy_def ex_mixed_docs_def mk_result_def Let_def)

lemma ex_mixed_bm25_built:
  "bm25_build_index (basic_tp None) fs_empty (new_BM25Retriever None) ex_mixed_texts ex_mixed_docs
     = Inr (ex_mixed_bm25, fs_empty)"
  by (simp add: bm25_build_index_def ex_mixed_texts_def ex_mixed_docs_def mk_doc_def
      new_BM25Retriever_def tokenize_and_filter_def ex_tokens
      model_of_def new_BM25Okapi_def truthy_def ex_mixed_bm25_def
      Let_def)

text \<open>
  C6, as amended. A document whose language is neither \<open>fr\<close> nor \<open>ar\<close> (or is absent)
  is in neither of the two language partitions of the BM25 retriever after
  \<^verbatim>\<open>build_index\<close>, whose corpora stay aligned with their documents; and it is not among
  the results of a vector search whose language filter is \<open>fr\<close> or \<open>ar\<close>. The vector
  index itself is not partitioned: \<^verbatim>\<open>FAISSRetriever.build_index\<close> stores every document
  with a text, and the filter of \<^verbatim>\<open>search\<close> is all that keeps a language out.
\<close>

theorem unsupported_language_excluded:
  assumes "doc_language d \<noteq> Some ''fr''" and "doc_language d \<noteq> Some ''ar''"
  shows "(bm25_build_index tp fsys r texts docs = Inr (r', fsys') \<longrightarrow>
            d \<notin> set (documents_fr r') \<and> d \<notin> set (documents_ar r')
            \<and> length (tokenized_corpus_fr r') = length (documents_fr r')
            \<and> length (tokenized_corpus_ar r') = length (documents_ar r'))
       \<and> (l = ''fr'' \<or> l = ''ar'' \<longrightarrow>
            d \<notin> document ` set (faiss_search lib fr query top_k (Some l)))"
proof (intro conjI impI)
  assume b: "bm25_build_index tp fsys r texts docs = Inr (r', fsys')"
  from bm25_build_index_partitions [OF b] assms
  show "d \<notin> set (documents_fr r')" "d \<notin> set (documents_ar r')"
    "length (tokenized_corpus_fr r') = length (documents_fr r')"
    "length (tokenized_corpus_ar r') = length (documents_ar r')" by auto
next
  assume l: "l = ''fr'' \<or> l = ''ar''"
  then have "l \<noteq> []" by auto
  from faiss_search_language [OF this, of lib fr query top_k] l assms
  show "d \<notin> document ` set (faiss_search lib fr query top_k (Some l))" by auto
qed


theorem unsupported_language_excluded_witness:
  "bm25_build_index (basic_tp None) fs_empty (new_BM25Retriever None) ex_mixed_texts ex_mixed_docs
     = Inr (ex_mixed_bm25, fs_empty)
   \<and> mk_doc ''Y_en'' (Some ''en'') \<in> set ex_mixed_docs
   \<and> mk_doc ''Y_en'' (Some ''en'') \<notin> set (documents_fr ex_mixed_bm25)
   \<and> mk_doc ''Y_en'' (Some ''en'') \<notin> set (documents_ar ex_mixed_bm25)
   \<and> mk_doc ''Z'' None \<notin> set (documents_fr ex_mixed_bm25)
   \<and> mk_doc ''Y_en'' (Some ''en'')
        \<notin> document ` set (faiss_search ex_faiss_lib ex_mixed_faiss ''capital'' 5 (Some ''fr''))"
proof -
  have y: "doc_language (mk_doc ''Y_en'' (Some ''en'')) \<noteq> Some ''fr''"
    "doc_language (mk_doc ''Y_en'' (Some ''en'')) \<noteq> Some ''ar''"
    and z: "doc_language (mk_doc ''Z'' None) \<noteq> Some ''fr''"
    "doc_language (mk_doc ''Z'' None) \<noteq> Some ''ar''"
    by (simp_all add: mk_doc_def)
  from unsupported_language_excluded [OF y, of "basic_tp None" fs_empty "new_BM25Retriever None"
      ex_mixed_texts ex_mixed_docs ex_mixed_bm25 fs_empty "''fr''" ex_faiss_lib ex_mixed_faiss
      "''capital''" 5]
    unsupported_language_excluded [OF z, of "basic_tp None" fs_empty "new_BM25Retriever None"
      ex_mixed_texts ex_mixed_docs ex_mixed_bm25 fs_empty "''fr''" ex_faiss_lib ex_mixed_faiss
      "''capital''" 5]
    ex_mixed_bm25_built
  show ?thesis by (simp add: ex_mixed_docs_def)
qed


text \<open>
  C6 as stated fails for the vector index. Built from the mixed corpus, it keeps the
  English document and the document without a language, and a search with no language
  filter returns both.
\<close>

theorem vector_index_not_partitioned_counterexample:
  "faiss_build_index ex_faiss_lib fs_empty (new_FAISSRetriever None ''all-MiniLM-L6-v2'')
     ex_mixed_texts ex_mixed_docs = Inr (ex_mixed_faiss, fs_empty)
   \<and> doc_language (mk_doc ''Y_en'' (Some ''en'')) = Some ''en''
   \<and> doc_language (mk_doc ''Z'' None) = None
   \<and> mk_doc ''Y_en'' (Some ''en'')
        \<in> document ` set (faiss_search ex_faiss_lib ex_mixed_faiss ''capital'' 5 None)
   \<and> mk_doc ''Z'' None
        \<in> document ` set (faiss_search ex_faiss_lib ex_mixed_faiss ''capital'' 5 None)"
  by (simp add: ex_mixed_faiss_built ex_mixed_faiss_search_none mk_result_def)
     (simp add: mk_doc_def)


subsection \<open>Snapshots\<close>





text \<open>
  A snapshot can fail to load after the retriever has been changed. The index is
  assigned before the pickle of the documents is read, and the corpora before the models
  are rebuilt: an index file with a pickle of garbage leaves the new index with the old
  documents, and a dictionary whose French corpus is one empty token list (the
  constructor divides by zero) leaves the new corpora with the old models. In both cases
  the result is \<open>False\<close>.
\<close>

lemma load_index_partial_state:
  "faiss_load_index
     \<lparr>files = (\<lambda>p. None)
        (''data/faiss_index.bin'' \<mapsto> FaissFile (IndexFlatIP 2 [[1, 0], [0, 1]]),
         ''data/faiss_index_docs.pkl'' \<mapsto> OtherFile ''garbage''),
      dirs = {''data''}\<rparr>
     (new_FAISSRetriever (Some ''data/faiss_index.bin'') ''m'')
   = (False, (new_FAISSRetriever (Some ''data/faiss_index.bin'') ''m'')
               \<lparr>index := Some (IndexFlatIP 2 [[1, 0], [0, 1]])\<rparr>)
   \<and> bm25_load_index
     \<lparr>files = (\<lambda>p. None)
        (''data/bm25_data.pkl'' \<mapsto>
           PickleFile (ObjDict (Some [[]]) (Some []) (Some [mk_doc ''A_fr'' (Some ''fr'')])
                         (Some []))),
      dirs = {''data''}\<rparr>
     (new_BM25Retriever (Some ''data/bm25_data.pkl''))
   = (False, (new_BM25Retriever (Some ''data/bm25_data.pkl''))
               \<lparr>tokenized_corpus_fr := [[]], documents_fr := [mk_doc ''A_fr'' (Some ''fr'')]\<rparr>)"
  by (simp add: faiss_load_index_def bm25_load_index_def path_exists_def pickle_load_def
      read_index_def new_BM25Retriever_def new_FAISSRetriever_def model_of_def
      new_BM25Okapi_def documents_path_def)



lemma bm25_round_trip:
  assumes "data_path r0 = Some p" and "p \<noteq> []"
    and build: "bm25_build_index tp fsys r0 texts docs = Inr (r, fsys')"
    and mk: "makedirs fsys (dirname p) = Inr fs1"
    and wr: "write_file fs1 p (PickleFile (ObjDict (Some (tokenized_corpus_fr r))
                (Some (tokenized_corpus_ar r)) (Some (documents_fr r)) (Some (documents_ar r))))
             = Inr fs2"
  shows "bm25_load_index fsys' (new_BM25Retriever (Some p)) = (True, r)"
proof -
  from build obtain tf df ta da m_fr m_ar where
    s: "separate_languages texts 0 docs = Inr (tf, df, ta, da)"
    and mfr: "model_of (map fst (tokenize_and_filter tp ''fr'' tf df)) = Inr m_fr"
    and mar: "model_of (map fst (tokenize_and_filter tp ''ar'' ta da)) = Inr m_ar"
    and r: "r = r0\<lparr>bm25_fr := m_fr, bm25_ar := m_ar,
                 tokenized_corpus_fr := map fst (tokenize_and_filter tp ''fr'' tf df),
                 tokenized_corpus_ar := map fst (tokenize_and_filter tp ''ar'' ta da),
                 documents_fr := map snd (tokenize_and_filter tp ''fr'' tf df),
                 documents_ar := map snd (tokenize_and_filter tp ''ar'' ta da)\<rparr>"
    and f: "fsys' = (if truthy (data_path r) then bm25_save_data fsys r else fsys)"
    by (auto simp: bm25_build_index_def Let_def split: sum.splits prod.splits)
  from r assms(1) have dp: "data_path r = Some p" by simp
  with f assms(2) mk wr have f2: "fsys' = fs2"
    by (simp add: truthy_def bm25_save_data_def)
  from wr have files: "files fs2 p = Some (PickleFile (ObjDict (Some (tokenized_corpus_fr r))
                (Some (tokenized_corpus_ar r)) (Some (documents_fr r)) (Some (documents_ar r))))"
    by (auto simp: write_file_def split: if_splits)
  have eq: "r = \<lparr>data_path = Some p, bm25_fr = m_fr, bm25_ar = m_ar,
                 tokenized_corpus_fr = map fst (tokenize_and_filter tp ''fr'' tf df),
                 tokenized_corpus_ar = map fst (tokenize_and_filter tp ''ar'' ta da),
                 documents_fr = map snd (tokenize_and_filter tp ''fr'' tf df),
                 documents_ar = map snd (tokenize_and_filter tp ''ar'' ta da)\<rparr>"
    using r assms(1) by (cases r0) simp
  show ?thesis
    using files assms(2) mfr mar
    by (simp add: f2 bm25_load_index_def new_BM25Retriever_def path_exists_def pickle_load_def
        eq)
qed

lemma faiss_round_trip:
  assumes "p \<noteq> []" and "documents_path p \<noteq> p"
    and build: "faiss_build_index lib fsys (new_FAISSRetriever (Some p) m) texts docs
                  = Inr (r, fsys')"
    and idx: "index r = Some idx"
    and mk: "makedirs fsys (dirname p) = Inr fs1"
    and wr1: "write_file fs1 p (FaissFile idx) = Inr fs2"
    and wr2: "write_file fs2 (documents_path p) (PickleFile (documents r)) = Inr fs3"
  shows "faiss_load_index fsys' (new_FAISSRetriever (Some p) m) = (True, r)"
proof -
  from build idx assms(1) have f: "fsys' = faiss_save_index fsys r"
    and ip: "index_path r = Some p" and em: "embedding_model r = m"
    by (auto simp: faiss_build_index_def new_FAISSRetriever_def Let_def truthy_def
        split: if_splits option.splits list.splits)
  from f ip assms(1) mk idx wr1 wr2 have f3: "fsys' = fs3"
    by (simp add: faiss_save_index_def)
  from wr1 have "files fs2 p = Some (FaissFile idx)"
    by (auto simp: write_file_def split: if_splits)
  with wr2 assms(2) have fi: "files fs3 p = Some (FaissFile idx)"
    and fd: "files fs3 (documents_path p) = Some (PickleFile (documents r))"
    by (auto simp: write_file_def split: if_splits)
  have eq: "r = \<lparr>index_path = Some p, embedding_model = m, index = Some idx,
                 documents = documents r\<rparr>"
    using ip em idx by (cases r) simp
  show ?thesis
    using fi fd assms(1)
    by (simp add: f3 faiss_load_index_def new_FAISSRetriever_def path_exists_def
        read_index_def pickle_load_def) (subst eq, simp)
qed

lemma ex_bm25_saved:
  "bm25_build_index (basic_tp None) fs_empty (new_BM25Retriever (Some ''data/bm25_data.pkl''))
     ex_mixed_texts ex_mixed_docs
   = Inr (ex_mixed_bm25\<lparr>data_path := Some ''data/bm25_data.pkl''\<rparr>,
          \<lparr>files = (\<lambda>p. None)(''data/bm25_data.pkl'' \<mapsto> ex_bm25_pickle), dirs = {''data''}\<rparr>)"
  by (simp add: bm25_build_index_def ex_mixed_texts_def ex_mixed_docs_def mk_doc_def
      new_BM25Retriever_def tokenize_and_filter_def ex_tokens
      model_of_def new_BM25Okapi_def truthy_def ex_mixed_bm25_def
      Let_def bm25_save_data_def dirname_def makedirs_def write_file_def fs_empty_def
      ex_bm25_pickle_def)

lemma ex_faiss_saved:
  "faiss_build_index ex_faiss_lib fs_empty
     (new_FAISSRetriever (Some ''data/faiss_index.bin'') ''all-MiniLM-L6-v2'')
     ex_mixed_texts ex_mixed_docs
   = Inr (ex_mixed_faiss\<lparr>index_path := Some ''data/faiss_index.bin''\<rparr>,
          \<lparr>files = (\<lambda>p. None)
             (''data/faiss_index.bin'' \<mapsto>
                FaissFile (IndexFlatIP 2 [[1, 0], [0, 1], [1, 0], [1, 0], [1, 0], [0, 1]]),
              ''data/faiss_index_docs.pkl'' \<mapsto> PickleFile (ObjDocs ex_mixed_docs)),
            dirs = {''data''}\<rparr>)"
  by (simp add: faiss_build_index_def ex_mixed_texts_def ex_mixed_docs_def
      new_FAISSRetriever_def blank_def strip_empty_def create_embeddings_def ex_faiss_lib_def
      ex_encode_def l2_normalize_def dot_def truthy_def ex_mixed_faiss_def
      Let_def faiss_save_index_def dirname_def makedirs_def write_file_def fs_empty_def
      documents_path_def numeral_2_eq_2)



text \<open>
  When the save writes its files, the snapshot loads into the state that was built. A
  retriever is built with a snapshot path and the writes of its save succeed; for the
  vector index, the path of the pickled documents, which is the index path with
  \<^verbatim>\<open>.bin\<close> replaced, differs from the index path. Then \<^verbatim>\<open>load_index\<close> on a fresh retriever
  with that path returns \<open>True\<close> and yields the very state of the retriever that was
  built, so every search returns the same results. \<^verbatim>\<open>load_index\<close> takes neither the
  tokenizer nor the encoder.
\<close>

lemma save_load_round_trip:
  "(data_path r0 = Some p \<and> p \<noteq> []
      \<and> bm25_build_index tp fsys r0 texts docs = Inr (r, fsys')
      \<and> makedirs fsys (dirname p) = Inr fs1
      \<and> write_file fs1 p (PickleFile (ObjDict (Some (tokenized_corpus_fr r))
                (Some (tokenized_corpus_ar r)) (Some (documents_fr r)) (Some (documents_ar r))))
          = Inr fs2
    \<longrightarrow> bm25_load_index fsys' (new_BM25Retriever (Some p)) = (True, r)
        \<and> bm25_search blib tp (snd (bm25_load_index fsys' (new_BM25Retriever (Some p))))
              query top_k language
            = bm25_search blib tp r query top_k language)
 \<and> (q \<noteq> [] \<and> documents_path q \<noteq> q
      \<and> faiss_build_index flib fsys (new_FAISSRetriever (Some q) m) texts docs = Inr (v, vfs')
      \<and> index v = Some idx
      \<and> makedirs fsys (dirname q) = Inr vfs1
      \<and> write_file vfs1 q (FaissFile idx) = Inr vfs2
      \<and> write_file vfs2 (documents_path q) (PickleFile (documents v)) = Inr vfs3
    \<longrightarrow> faiss_load_index vfs' (new_FAISSRetriever (Some q) m) = (True, v)
        \<and> faiss_search flib (snd (faiss_load_index vfs' (new_FAISSRetriever (Some q) m)))
              query top_k language
            = faiss_search flib v query top_k language)"
proof (intro conjI impI)
  assume a: "data_path r0 = Some p \<and> p \<noteq> []
      \<and> bm25_build_index tp fsys r0 texts docs = Inr (r, fsys')
      \<and> makedirs fsys (dirname p) = Inr fs1
      \<and> write_file fs1 p (PickleFile (ObjDict (Some (tokenized_corpus_fr r))
                (Some (tokenized_corpus_ar r)) (Some (documents_fr r)) (Some (documents_ar r))))
          = Inr fs2"
  then have l: "bm25_load_index fsys' (new_BM25Retriever (Some p)) = (True, r)"
    by (intro bm25_round_trip [of r0 p tp fsys texts docs r fsys' fs1 fs2]) simp_all
  then show "bm25_load_index fsys' (new_BM25Retriever (Some p)) = (True, r)" .
  from l show "bm25_search blib tp (snd (bm25_load_index fsys' (new_BM25Retriever (Some p))))
              query top_k language
            = bm25_search blib tp r query top_k language" by simp
next
  assume a: "q \<noteq> [] \<and> documents_path q \<noteq> q
      \<and> faiss_build_index flib fsys (new_FAISSRetriever (Some q) m) texts docs = Inr (v, vfs')
      \<and> index v = Some idx
      \<and> makedirs fsys (dirname q) = Inr vfs1
      \<and> write_file vfs1 q (FaissFile idx) = Inr vfs2
      \<and> write_file vfs2 (documents_path q) (PickleFile (documents v)) = Inr vfs3"
  then have l: "faiss_load_index vfs' (new_FAISSRetriever (Some q) m) = (True, v)"
    by (intro faiss_round_trip [of q flib fsys m texts docs v vfs' idx vfs1 vfs2 vfs3]) simp_all
  then show "faiss_load_index vfs' (new_FAISSRetriever (Some q) m) = (True, v)" .
  from l show "faiss_search flib (snd (faiss_load_index vfs' (new_FAISSRetriever (Some q) m)))
              query top_k language
            = faiss_search flib v query top_k language" by simp
qed


lemma save_load_round_trip_example:
  "bm25_load_index
     \<lparr>files = (\<lambda>p. None)(''data/bm25_data.pkl'' \<mapsto> ex_bm25_pickle), dirs = {''data''}\<rparr>
     (new_BM25Retriever (Some ''data/bm25_data.pkl''))
   = (True, ex_mixed_bm25\<lparr>data_path := Some ''data/bm25_data.pkl''\<rparr>)
   \<and> faiss_load_index
     \<lparr>files = (\<lambda>p. None)
             (''data/faiss_index.bin'' \<mapsto>
                FaissFile (IndexFlatIP 2 [[1, 0], [0, 1], [1, 0], [1, 0], [1, 0], [0, 1]]),
              ''data/faiss_index_docs.pkl'' \<mapsto> PickleFile (ObjDocs ex_mixed_docs)),
            dirs = {''data''}\<rparr>
     (new_FAISSRetriever (Some ''data/faiss_index.bin'') ''all-MiniLM-L6-v2'')
   = (True, ex_mixed_faiss\<lparr>index_path := Some ''data/faiss_index.bin''\<rparr>)"
proof -
  have mk: "makedirs fs_empty (dirname ''data/bm25_data.pkl'') = Inr (fs_empty\<lparr>dirs := {''data''}\<rparr>)"
    "makedirs fs_empty (dirname ''data/faiss_index.bin'') = Inr (fs_empty\<lparr>dirs := {''data''}\<rparr>)"
    by (simp_all add: makedirs_def dirname_def fs_empty_def)
  have w1: "write_file (fs_empty\<lparr>dirs := {''data''}\<rparr>) ''data/bm25_data.pkl'' c
      = Inr (fs_empty\<lparr>dirs := {''data''}, files := (\<lambda>p. None)(''data/bm25_data.pkl'' \<mapsto> c)\<rparr>)"
    for c
    by (simp add: write_file_def dirname_def fs_empty_def)
  have w2: "write_file (fs_empty\<lparr>dirs := {''data''}\<rparr>) ''data/faiss_index.bin'' c
      = Inr (fs_empty\<lparr>dirs := {''data''}, files := (\<lambda>p. None)(''data/faiss_index.bin'' \<mapsto> c)\<rparr>)"
    for c
    by (simp add: write_file_def dirname_def fs_empty_def)
  have w3: "write_file
       (fs_empty\<lparr>dirs := {''data''}, files := (\<lambda>p. None)(''data/faiss_index.bin'' \<mapsto> c)\<rparr>)
       (documents_path ''data/faiss_index.bin'') d
      = Inr (fs_empty\<lparr>dirs := {''data''},
              files := (\<lambda>p. None)(''data/faiss_index.bin'' \<mapsto> c,
                                  ''data/faiss_index_docs.pkl'' \<mapsto> d)\<rparr>)"
    for c d
    by (simp add: write_file_def dirname_def fs_empty_def documents_path_def)
  have dp: "documents_path ''data/faiss_index.bin'' \<noteq> ''data/faiss_index.bin''"
    by (simp add: documents_path_def)
  have i: "index (ex_mixed_faiss\<lparr>index_path := Some ''data/faiss_index.bin''\<rparr>)
      = Some (IndexFlatIP 2 [[1, 0], [0, 1], [1, 0], [1, 0], [1, 0], [0, 1]])"
    by (simp add: ex_mixed_faiss_def)
  from save_load_round_trip
    [where ?r0.0 = "new_BM25Retriever (Some ''data/bm25_data.pkl'')"
       and p = "''data/bm25_data.pkl''" and tp = "basic_tp None"
       and fsys = fs_empty and texts = ex_mixed_texts and docs = ex_mixed_docs
       and r = "ex_mixed_bm25\<lparr>data_path := Some ''data/bm25_data.pkl''\<rparr>"
       and fsys' = "\<lparr>files = (\<lambda>p. None)(''data/bm25_data.pkl'' \<mapsto> ex_bm25_pickle),
                      dirs = {''data''}\<rparr>"
       and ?fs1.0 = "fs_empty\<lparr>dirs := {''data''}\<rparr>"
       and ?fs2.0 = "fs_empty\<lparr>dirs := {''data''},
                      files := (\<lambda>p. None)(''data/bm25_data.pkl'' \<mapsto> ex_bm25_pickle)\<rparr>"
       and blib = ex_bm25_lib and query = "''capital''" and top_k = 2
       and language = "Some ''fr''"
       and q = "''data/faiss_index.bin''" and flib = ex_faiss_lib
       and m = "''all-MiniLM-L6-v2''"
       and v = "ex_mixed_faiss\<lparr>index_path := Some ''data/faiss_index.bin''\<rparr>"
       and vfs' = "\<lparr>files = (\<lambda>p. None)
             (''data/faiss_index.bin'' \<mapsto>
                FaissFile (IndexFlatIP 2 [[1, 0], [0, 1], [1, 0], [1, 0], [1, 0], [0, 1]]),
              ''data/faiss_index_docs.pkl'' \<mapsto> PickleFile (ObjDocs ex_mixed_docs)),
            dirs = {''data''}\<rparr>"
       and idx = "IndexFlatIP 2 [[1, 0], [0, 1], [1, 0], [1, 0], [1, 0], [0, 1]]"
       and ?vfs1.0 = "fs_empty\<lparr>dirs := {''data''}\<rparr>"
       and ?vfs2.0 = "fs_empty\<lparr>dirs := {''data''},
              files := (\<lambda>p. None)(''data/faiss_index.bin'' \<mapsto>
                FaissFile (IndexFlatIP 2 [[1, 0], [0, 1], [1, 0], [1, 0], [1, 0], [0, 1]]))\<rparr>"
       and ?vfs3.0 = "fs_empty\<lparr>dirs := {''data''},
              files := (\<lambda>p. None)(''data/faiss_index.bin'' \<mapsto>
                FaissFile (IndexFlatIP 2 [[1, 0], [0, 1], [1, 0], [1, 0], [1, 0], [0, 1]]),
                ''data/faiss_index_docs.pkl'' \<mapsto> PickleFile (ObjDocs ex_mixed_docs))\<rparr>"]
    ex_bm25_saved ex_faiss_saved mk w1 w2 w3 dp i
  show ?thesis
    by (simp add: new_BM25Retriever_def ex_bm25_pickle_def ex_mixed_faiss_def)
qed

lemma ex_faiss_search_fr:
  "faiss_search ex_faiss_lib (ex_mixed_faiss\<lparr>index_path := p\<rparr>) ''capital'' 1 (Some ''fr'')
     = [mk_result (mk_doc ''A_fr'' (Some ''fr'')) 1 1]"
  using ex_flat_search_3
  by (simp add: faiss_search_def ex_mixed_faiss_def not_blank_capital create_embeddings_def
      ex_faiss_lib_def ex_encode_def l2_normalize_def dot_def search_k_def
      truthy_def ex_mixed_docs_def mk_result_def mk_doc_def Let_def)

lemma ex_bm25_search_path:
  "bm25_search ex_bm25_lib (basic_tp None) (ex_bm25\<lparr>data_path := p\<rparr>) ''capital'' 2 (Some ''fr'')
   = [mk_result (mk_doc ''B_fr'' (Some ''fr'')) (ln (7/2) - ln (5/2)) 1,
      mk_result (mk_doc ''A_fr'' (Some ''fr'')) (ln (7/2) - ln (5/2)) 2]"
  by (simp add: bm25_search_def not_blank_capital resolve_language_def ex_tokens
      ex_bm25_def search_language_def ex_bm25_lib_def ex_scores
      top_indices_def stable_argsort_def py_slice_from_def upt_rec enumerate_eq_zip
      ex_docs_def mk_result_def Let_def)

lemma ex_faiss_built_without_bin:
  "faiss_build_index ex_faiss_lib fs_empty
     (new_FAISSRetriever (Some ''data/faiss_index'') ''all-MiniLM-L6-v2'')
     ex_mixed_texts ex_mixed_docs
   = Inr (ex_mixed_faiss\<lparr>index_path := Some ''data/faiss_index''\<rparr>,
          \<lparr>files = (\<lambda>p. None)(''data/faiss_index'' \<mapsto> PickleFile (ObjDocs ex_mixed_docs)),
           dirs = {''data''}\<rparr>)"
  by (simp add: faiss_build_index_def ex_mixed_texts_def ex_mixed_docs_def
      new_FAISSRetriever_def blank_def strip_empty_def create_embeddings_def ex_faiss_lib_def
      ex_encode_def l2_normalize_def dot_def truthy_def ex_mixed_faiss_def
      Let_def faiss_save_index_def dirname_def makedirs_def write_file_def fs_empty_def
      documents_path_def numeral_2_eq_2)

lemma ex_bm25_built_bare_name:
  "bm25_build_index (basic_tp None) fs_empty (new_BM25Retriever (Some ''bm25_data.pkl''))
     ex_texts ex_docs
   = Inr (ex_bm25\<lparr>data_path := Some ''bm25_data.pkl''\<rparr>, fs_empty)"
  by (simp add: bm25_build_index_def ex_texts_def ex_docs_def mk_doc_def new_BM25Retriever_def
      tokenize_and_filter_def ex_tokens model_of_def new_BM25Okapi_def truthy_def ex_bm25_def
      ex_corpus_def Let_def bm25_save_data_def dirname_def makedirs_def)

text \<open>
  C5 fails: a snapshot does not load on two kinds of path, and the fresh retriever then
  answers no query that the built one answers.

  An index path that does not contain \<^verbatim>\<open>.bin\<close>: \<^verbatim>\<open>replace('.bin', '_docs.pkl')\<close> leaves
  it as it is, so \<^verbatim>\<open>_save_index\<close> writes the index and then the pickled documents to the
  same file. \<^verbatim>\<open>build_index\<close> returns; \<^verbatim>\<open>load_index\<close> on a fresh retriever with that path
  returns \<open>False\<close>, \<^verbatim>\<open>faiss.read_index\<close> having raised on the pickle.

  A data path with no directory part: \<^verbatim>\<open>os.path.dirname\<close> is the empty string, on which
  \<^verbatim>\<open>os.makedirs\<close> raises; \<^verbatim>\<open>_save_data\<close> catches the exception and writes nothing.
  \<^verbatim>\<open>build_index\<close> returns; \<^verbatim>\<open>load_index\<close> on a fresh retriever returns \<open>False\<close>, as
  there is no file.
\<close>

theorem snapshot_not_loaded:
  "documents_path ''data/faiss_index'' = ''data/faiss_index''
   \<and> faiss_build_index ex_faiss_lib fs_empty
        (new_FAISSRetriever (Some ''data/faiss_index'') ''all-MiniLM-L6-v2'')
        ex_mixed_texts ex_mixed_docs
     = Inr (ex_mixed_faiss\<lparr>index_path := Some ''data/faiss_index''\<rparr>,
            \<lparr>files = (\<lambda>p. None)(''data/faiss_index'' \<mapsto> PickleFile (ObjDocs ex_mixed_docs)),
             dirs = {''data''}\<rparr>)
   \<and> faiss_load_index
        \<lparr>files = (\<lambda>p. None)(''data/faiss_index'' \<mapsto> PickleFile (ObjDocs ex_mixed_docs)),
         dirs = {''data''}\<rparr>
        (new_FAISSRetriever (Some ''data/faiss_index'') ''all-MiniLM-L6-v2'')
     = (False, new_FAISSRetriever (Some ''data/faiss_index'') ''all-MiniLM-L6-v2'')
   \<and> faiss_search ex_faiss_lib (ex_mixed_faiss\<lparr>index_path := Some ''data/faiss_index''\<rparr>)
        ''capital'' 1 (Some ''fr'')
     = [mk_result (mk_doc ''A_fr'' (Some ''fr'')) 1 1]
   \<and> faiss_search ex_faiss_lib
        (new_FAISSRetriever (Some ''data/faiss_index'') ''all-MiniLM-L6-v2'')
        ''capital'' 1 (Some ''fr'')
     = []
   \<and> dirname ''bm25_data.pkl'' = []
   \<and> bm25_build_index (basic_tp None) fs_empty (new_BM25Retriever (Some ''bm25_data.pkl''))
        ex_texts ex_docs
     = Inr (ex_bm25\<lparr>data_path := Some ''bm25_data.pkl''\<rparr>, fs_empty)
   \<and> bm25_load_index fs_empty (new_BM25Retriever (Some ''bm25_data.pkl''))
     = (False, new_BM25Retriever (Some ''bm25_data.pkl''))
   \<and> bm25_search ex_bm25_lib (basic_tp None) (ex_bm25\<lparr>data_path := Some ''bm25_data.pkl''\<rparr>)
        ''capital'' 2 (Some ''fr'')
     = [mk_result (mk_doc ''B_fr'' (Some ''fr'')) (ln (7/2) - ln (5/2)) 1,
        mk_result (mk_doc ''A_fr'' (Some ''fr'')) (ln (7/2) - ln (5/2)) 2]
   \<and> bm25_search ex_bm25_lib (basic_tp None) (new_BM25Retriever (Some ''bm25_data.pkl''))
        ''capital'' 2 (Some ''fr'')
     = []"
proof (intro conjI)
  show "documents_path ''data/faiss_index'' = ''data/faiss_index''"
    by (simp add: documents_path_def)
  show "faiss_build_index ex_faiss_lib fs_empty
        (new_FAISSRetriever (Some ''data/faiss_index'') ''all-MiniLM-L6-v2'')
        ex_mixed_texts ex_mixed_docs
     = Inr (ex_mixed_faiss\<lparr>index_path := Some ''data/faiss_index''\<rparr>,
            \<lparr>files = (\<lambda>p. None)(''data/faiss_index'' \<mapsto> PickleFile (ObjDocs ex_mixed_docs)),
             dirs = {''data''}\<rparr>)"
    by (rule ex_faiss_built_without_bin)
  show "faiss_load_index
        \<lparr>files = (\<lambda>p. None)(''data/faiss_index'' \<mapsto> PickleFile (ObjDocs ex_mixed_docs)),
         dirs = {''data''}\<rparr>
        (new_FAISSRetriever (Some ''data/faiss_index'') ''all-MiniLM-L6-v2'')
     = (False, new_FAISSRetriever (Some ''data/faiss_index'') ''all-MiniLM-L6-v2'')"
    by (simp add: faiss_load_index_def new_FAISSRetriever_def path_exists_def read_index_def)
  show "faiss_search ex_faiss_lib (ex_mixed_faiss\<lparr>index_path := Some ''data/faiss_index''\<rparr>)
        ''capital'' 1 (Some ''fr'')
     = [mk_result (mk_doc ''A_fr'' (Some ''fr'')) 1 1]"
    by (rule ex_faiss_search_fr)
  show "faiss_search ex_faiss_lib
        (new_FAISSRetriever (Some ''data/faiss_index'') ''all-MiniLM-L6-v2'')
        ''capital'' 1 (Some ''fr'')
     = []"
    by (simp add: faiss_search_def new_FAISSRetriever_def)
  show "dirname ''bm25_data.pkl'' = []"
    by (simp add: dirname_def)
  show "bm25_build_index (basic_tp None) fs_empty (new_BM25Retriever (Some ''bm25_data.pkl''))
        ex_texts ex_docs
     = Inr (ex_bm25\<lparr>data_path := Some ''bm25_data.pkl''\<rparr>, fs_empty)"
    by (rule ex_bm25_built_bare_name)
  show "bm25_load_index fs_empty (new_BM25Retriever (Some ''bm25_data.pkl''))
     = (False, new_BM25Retriever (Some ''bm25_data.pkl''))"
    by (simp add: bm25_load_index_def new_BM25Retriever_def path_exists_def fs_empty_def)
  show "bm25_search ex_bm25_lib (basic_tp None) (ex_bm25\<lparr>data_path := Some ''bm25_data.pkl''\<rparr>)
        ''capital'' 2 (Some ''fr'')
     = [mk_result (mk_doc ''B_fr'' (Some ''fr'')) (ln (7/2) - ln (5/2)) 1,
        mk_result (mk_doc ''A_fr'' (Some ''fr'')) (ln (7/2) - ln (5/2)) 2]"
    by (rule ex_bm25_search_path)
  show "bm25_search ex_bm25_lib (basic_tp None) (new_BM25Retriever (Some ''bm25_data.pkl''))
        ''capital'' 2 (Some ''fr'')
     = []"
    by (simp add: bm25_search_def new_BM25Retriever_def not_blank_capital resolve_language_def
        ex_tokens)
qed

subsection \<open>Queries in a language that is neither French nor Arabic\<close>

lemma extract_results_docs:
  assumes "\<forall>x\<in>set acc. document x \<in> set docs"
  shows "\<forall>x\<in>set (extract_results docs language top_k cands acc). document x \<in> set docs"
  using assms
proof (induction cands arbitrary: acc)
  case Nil
  then show ?case by simp
next
  case (Cons c cands)
  obtain s i where c: "c = (s, i)" by (cases c)
  let ?new = "\<lparr>document = docs ! nat i, score = s, rank = int (length acc) + 1,
                 faiss_score = None, bm25_score = None\<rparr>"
  show ?case
  proof (cases "i < 0 \<or> int (length docs) \<le> i")
    case True
    then have "extract_results docs language top_k (c # cands) acc
             = extract_results docs language top_k cands acc"
      by (simp add: c)
    with Cons.IH [OF Cons.prems] show ?thesis by simp
  next
    case False
    then have "nat i < length docs" by linarith
    then have "docs ! nat i \<in> set docs" by simp
    with Cons.prems have new: "\<forall>x\<in>set (acc @ [?new]). document x \<in> set docs" by simp
    have "extract_results docs language top_k (c # cands) acc
            = extract_results docs language top_k cands acc
        \<or> extract_results docs language top_k (c # cands) acc = acc @ [?new]
        \<or> extract_results docs language top_k (c # cands) acc
            = extract_results docs language top_k cands (acc @ [?new])"
      using False by (simp add: c Let_def)
    with Cons.IH [OF new] Cons.IH [OF Cons.prems] new show ?thesis by auto
  qed
qed

lemma faiss_search_docs:
  "\<forall>x\<in>set (faiss_search lib r query top_k language).
     document x \<in> set (doc_list (documents r))"
  using extract_results_docs [of "[]" "doc_list (documents r)"]
    faiss_search_as_list [of lib r query top_k language]
  by auto

lemma resolve_language_idem:
  "resolve_language tp (Some (resolve_language tp language query)) query
     = resolve_language tp language query"
  by (simp add: resolve_language_def split: option.split)

lemma bm25_search_unsupported:
  assumes "resolve_language tp language query \<noteq> ''fr''"
    and "resolve_language tp language query \<noteq> ''ar''"
  shows "bm25_search blib tp br query top_k language = []"
  using assms by (simp add: bm25_search_def Let_def)


lemma ex_flat_search_6:
  "flat_search (IndexFlatIP 2 [[1, 0], [0, 1], [1, 0], [1, 0], [1, 0], [0, 1]]) [[1, 0]] 6
     = Inr [(1, 0), (1, 2), (1, 3), (1, 4), (0, 1), (0, 5)]"
  by (simp add: dot_def upt_rec)

lemma ex_resolve_en:
  "resolve_language (basic_tp (Some (\<lambda>t. Inr ''en''))) None ''capital'' = ''en''"
  "resolve_language (basic_tp (Some (\<lambda>t. Inr ''de''))) None ''capital'' = ''de''"
  by (simp_all add: resolve_language_def detect_language_def not_blank_capital basic_tp_def
      new_TextProcessor_def)

lemma ex_faiss_search_en:
  "faiss_search ex_faiss_lib ex_mixed_faiss ''capital'' 10 (Some ''en'')
     = [mk_result (mk_doc ''Y_en'' (Some ''en'')) 1 1]"
  using ex_flat_search_6
  by (simp add: faiss_search_def ex_mixed_faiss_def not_blank_capital create_embeddings_def
      ex_faiss_lib_def ex_encode_def l2_normalize_def dot_def search_k_def
      truthy_def ex_mixed_docs_def mk_result_def mk_doc_def Let_def)


text \<open>
  C10, as amended. Let \<open>lang\<close> be the language of the query, supplied or detected, and
  let it be neither \<open>fr\<close> nor \<open>ar\<close>. The BM25 search returns the empty list. The hybrid
  search over the two retrievers returns the empty list provided that no document
  stored with the vector index has the language \<open>lang\<close>: the language filter of the
  vector search compares the language of each stored document with \<open>lang\<close>.
\<close>

theorem unsupported_query_language:
  assumes "lang = resolve_language tp language query"
    and "lang \<noteq> ''fr''" and "lang \<noteq> ''ar''"
  shows "bm25_search blib tp br query top_k language = []
       \<and> (lang \<noteq> [] \<and> list_all (\<lambda>d. doc_language d \<noteq> Some lang) (doc_list (documents fr))
            \<and> faiss_retriever h = Some (\<lambda>q k l. Inr (faiss_search flib fr q k (Some l)))
            \<and> bm25_retriever h = Some (\<lambda>q k l. Inr (bm25_search blib tp br q k (Some l)))
            \<and> text_processor h = tp
          \<longrightarrow> hybrid_search h query top_k language = [])"
proof (intro conjI impI)
  show "bm25_search blib tp br query top_k language = []"
    using assms by (simp add: bm25_search_unsupported)
next
  assume a: "lang \<noteq> [] \<and> list_all (\<lambda>d. doc_language d \<noteq> Some lang) (doc_list (documents fr))
            \<and> faiss_retriever h = Some (\<lambda>q k l. Inr (faiss_search flib fr q k (Some l)))
            \<and> bm25_retriever h = Some (\<lambda>q k l. Inr (bm25_search blib tp br q k (Some l)))
            \<and> text_processor h = tp"
  let ?k = "max (top_k * 2) 10"
  have b: "bm25_search blib tp br query ?k (Some lang) = []"
    using assms by (intro bm25_search_unsupported) (simp_all add: resolve_language_idem)
  have f: "faiss_search flib fr query ?k (Some lang) = []"
  proof (rule ccontr)
    assume "faiss_search flib fr query ?k (Some lang) \<noteq> []"
    then obtain x where x: "x \<in> set (faiss_search flib fr query ?k (Some lang))"
      by (cases "faiss_search flib fr query ?k (Some lang)") auto
    from a have "lang \<noteq> []" by simp
    from faiss_search_language [OF this, of flib fr query ?k] x
    have "doc_language (document x) = Some lang" by blast
    moreover from faiss_search_docs [of flib fr query ?k "Some lang"] x
    have "document x \<in> set (doc_list (documents fr))" by blast
    ultimately show False using a by (auto simp: list_all_iff)
  qed
  show "hybrid_search h query top_k language = []"
    using a b f assms(1)
    by (simp add: hybrid_search_def sub_results_def Let_def)
qed



theorem unsupported_query_language_witness:
  "resolve_language (basic_tp (Some (\<lambda>t. Inr ''de''))) None ''capital'' = ''de''
   \<and> bm25_search ex_bm25_lib (basic_tp (Some (\<lambda>t. Inr ''de''))) ex_mixed_bm25 ''capital'' 3 None = []
   \<and> hybrid_search
        (make_hybrid ex_faiss_lib ex_bm25_lib (basic_tp (Some (\<lambda>t. Inr ''de'')))
           ex_mixed_faiss ex_mixed_bm25)
        ''capital'' 3 None = []
   \<and> doc_list (documents ex_mixed_faiss) \<noteq> [] \<and> documents_fr ex_mixed_bm25 \<noteq> []"
proof -
  have l: "''de'' = resolve_language (basic_tp (Some (\<lambda>t. Inr ''de''))) None ''capital''"
    by (simp add: ex_resolve_en)
  have n: "''de'' \<noteq> ''fr''" "''de'' \<noteq> ''ar''" by simp_all
  from unsupported_query_language [OF l n, of ex_bm25_lib ex_mixed_bm25 3 ex_mixed_faiss
      "make_hybrid ex_faiss_lib ex_bm25_lib (basic_tp (Some (\<lambda>t. Inr ''de'')))
           ex_mixed_faiss ex_mixed_bm25" ex_faiss_lib]
  show ?thesis
    by (simp add: ex_resolve_en make_hybrid_def ex_mixed_faiss_def ex_mixed_docs_def mk_doc_def
        ex_mixed_bm25_def)
qed

text \<open>
  C10 as stated fails for the hybrid search. The vector index of the mixed corpus holds
  a document of language \<open>en\<close>; for a query detected as \<open>en\<close> the BM25 search is empty
  and the vector search returns that document, which the hybrid search passes on.
\<close>

theorem unsupported_query_language_counterexample:
  "resolve_language (basic_tp (Some (\<lambda>t. Inr ''en''))) None ''capital'' = ''en''
   \<and> bm25_search ex_bm25_lib (basic_tp (Some (\<lambda>t. Inr ''en''))) ex_mixed_bm25 ''capital'' 3 None = []
   \<and> hybrid_search
        (make_hybrid ex_faiss_lib ex_bm25_lib (basic_tp (Some (\<lambda>t. Inr ''en'')))
           ex_mixed_faiss ex_mixed_bm25)
        ''capital'' 3 None
      = [mk_result (mk_doc ''Y_en'' (Some ''en'')) 1 1]"
proof (intro conjI)
  show "resolve_language (basic_tp (Some (\<lambda>t. Inr ''en''))) None ''capital'' = ''en''"
    by (rule ex_resolve_en)
  show b: "bm25_search ex_bm25_lib (basic_tp (Some (\<lambda>t. Inr ''en''))) ex_mixed_bm25 ''capital'' 3 None
      = []"
    by (simp add: bm25_search_unsupported ex_resolve_en)
  have "bm25_search ex_bm25_lib (basic_tp (Some (\<lambda>t. Inr ''en''))) ex_mixed_bm25 ''capital'' 10
      (Some ''en'') = []"
    by (simp add: bm25_search_unsupported resolve_language_def)
  then show "hybrid_search
        (make_hybrid ex_faiss_lib ex_bm25_lib (basic_tp (Some (\<lambda>t. Inr ''en'')))
           ex_mixed_faiss ex_mixed_bm25)
        ''capital'' 3 None
      = [mk_result (mk_doc ''Y_en'' (Some ''en'')) 1 1]"
    by (simp add: hybrid_search_def make_hybrid_def not_blank_capital ex_resolve_en
        sub_results_def ex_faiss_search_en py_slice_to_def Let_def)
qed


subsection \<open>\<^verbatim>\<open>HybridRetriever.search\<close>: fusion of two sources\<close>



lemma minmax_all_equal:
  assumes "rs \<noteq> []" and "\<forall>x\<in>set rs. score x = c"
  shows "minmax rs s = 1"
proof -
  from assms have "score ` set rs = {c}" by (cases rs) auto
  then have "Min (score ` set rs) = c" "Max (score ` set rs) = c" by simp_all
  then show ?thesis by (simp add: minmax_def)
qed


















lemma norm_in_simps [simp]:
  "document (norm_in rs r) = document r" "key (norm_in rs r) = key r"
  "score (norm_in rs r) = minmax rs (score r)"
  by (simp_all add: norm_in_def key_def)














end
